theory Spec2Isabelle
  imports Complex_Main "HOL-Library.Sublist"
begin

section \<open>Python strings\<close>

text \<open>
  A Python \<open>str\<close> is modelled as a \<open>string\<close>, one \<open>char\<close> per code point, so the
  model covers text whose code points lie below 256. The functions below are the
  built-in string methods the two modules call.
\<close>

definition py_isspace :: "char \<Rightarrow> bool" where
  \<comment> \<open>the code points below 256 that \<open>str.isspace\<close> accepts\<close>
  "py_isspace c =
     (let n = (of_char c :: nat)
      in (9 \<le> n \<and> n \<le> 13) \<or> (28 \<le> n \<and> n \<le> 32) \<or> n = 133 \<or> n = 160)"

definition strip :: "string \<Rightarrow> string" where
  \<comment> \<open>\<open>s.strip()\<close>\<close>
  "strip s = rev (dropWhile py_isspace (rev (dropWhile py_isspace s)))"

definition upper_char :: "char \<Rightarrow> string" where
  \<comment> \<open>the capital of one character: 32 below for a-z and for the accented letters
      224-254 (247 is the division sign), \<open>SS\<close> for the sharp s (223). The capitals of the
      micro sign (181) and of y with diaeresis (255) lie beyond 255: these two stay as they are.\<close>
  "upper_char c =
     (let n = (of_char c :: nat)
      in if (97 \<le> n \<and> n \<le> 122) \<or> (224 \<le> n \<and> n \<le> 254 \<and> n \<noteq> 247)
         then [char_of (n - 32)]
         else if n = 223 then ''SS'' else [c])"

definition upper :: "string \<Rightarrow> string" where
  \<comment> \<open>\<open>s.upper()\<close>\<close>
  "upper s = concat (map upper_char s)"

fun startswith :: "string \<Rightarrow> string \<Rightarrow> bool" where
  \<comment> \<open>\<open>s.startswith(sub)\<close>, written \<open>startswith sub s\<close>\<close>
  "startswith [] s = True"
| "startswith (a # sub) [] = False"
| "startswith (a # sub) (c # s) = (a = c \<and> startswith sub s)"

fun py_in :: "string \<Rightarrow> string \<Rightarrow> bool" where
  \<comment> \<open>\<open>sub in s\<close> on strings\<close>
  "py_in sub [] = (sub = [])"
| "py_in sub (c # s) = (startswith sub (c # s) \<or> py_in sub s)"

fun split_on :: "char \<Rightarrow> string \<Rightarrow> string list" where
  \<comment> \<open>\<open>s.split(sep)\<close> for a one-character separator: never an empty list\<close>
  "split_on sep [] = [[]]"
| "split_on sep (c # s) =
     (if c = sep then [] # split_on sep s
      else (case split_on sep s of
              [] \<Rightarrow> [[c]]
            | p # ps \<Rightarrow> (c # p) # ps))"

definition is_ascii_digit :: "char \<Rightarrow> bool" where
  "is_ascii_digit c = (let n = (of_char c :: nat) in 48 \<le> n \<and> n \<le> 57)"

definition digit_char :: "nat \<Rightarrow> char" where
  "digit_char d = char_of (48 + d)"

fun str_of_nat :: "nat \<Rightarrow> string" where
  \<comment> \<open>\<open>str(n)\<close> for \<open>n \<ge> 0\<close>\<close>
  "str_of_nat n =
     (if n < 10 then [digit_char n] else str_of_nat (n div 10) @ [digit_char (n mod 10)])"

declare str_of_nat.simps [simp del]

definition str_of_int :: "int \<Rightarrow> string" where
  \<comment> \<open>\<open>str(i)\<close> of a Python int\<close>
  "str_of_int i = (if i < 0 then CHR ''-'' # str_of_nat (nat (- i)) else str_of_nat (nat i))"

definition truthy :: "string option \<Rightarrow> bool" where
  \<comment> \<open>the truth value of an \<open>Optional[str]\<close>: \<open>None\<close> and \<open>''\<close> are false\<close>
  "truthy v = (case v of None \<Rightarrow> False | Some s \<Rightarrow> s \<noteq> [])"

section \<open>data_convert: the schedule-code reference table\<close>

text \<open>
  The table after \<open>pandas.read_csv\<close>: the names of its columns and, for each row, the
  text of the \<open>CODIGO HORARIO\<close> cell and the \<open>ID SCRIPT\<close> cell as \<open>astype(str)\<close>
  gives it: a text, or \<open>None\<close> where pandas keeps a blank cell as a missing value (an
  older pandas gives the text \<open>nan\<close> instead). The loaded frame keeps, per row, the
  normalised code and the trimmed key; a missing key equals no text.
\<close>

record horarios_csv =
  hc_columns :: "string list"
  hc_rows :: "(string \<times> string option) list"

type_synonym horarios_df = "(string \<times> string option) list"

definition col_codigo_horario :: string where
  \<comment> \<open>the column name \<open>CODIGO HORARIO\<close>, with its two accented capitals (code points 211 and 193)\<close>
  "col_codigo_horario = ''C'' @ [char_of (211::nat)] @ ''DIGO HOR'' @ [char_of (193::nat)] @ ''RIO''"

definition col_id_script :: string where
  "col_id_script = ''ID SCRIPT''"

text \<open>
  The value \<open>pandas.to_numeric(..., errors='coerce')\<close> gives a cell: a finite number,
  \<open>NaN\<close> (the cell is empty or cannot be parsed as a number) or an infinity. The
  parser itself belongs to pandas and is a parameter of the load.
\<close>

datatype pnum = PNum rat | PNaN | PInf

definition fillna0 :: "pnum \<Rightarrow> pnum" where
  \<comment> \<open>\<open>.fillna(0)\<close>\<close>
  "fillna0 v = (case v of PNaN \<Rightarrow> PNum 0 | _ \<Rightarrow> v)"

definition trunc_rat :: "rat \<Rightarrow> int" where
  \<comment> \<open>the cast of a float to an integer drops the fraction, towards zero\<close>
  "trunc_rat r = (if 0 \<le> r then \<lfloor>r\<rfloor> else \<lceil>r\<rceil>)"

definition astype_int :: "(rat \<Rightarrow> int) \<Rightarrow> pnum \<Rightarrow> int option" where
  \<comment> \<open>\<open>.astype(int)\<close>: a non-finite value raises; a value outside 64 bits has no
      defined result, \<open>ovf\<close> stands for what the platform gives\<close>
  "astype_int ovf v =
     (case v of
        PNum r \<Rightarrow>
          (let t = trunc_rat r
           in if - (2 ^ 63) \<le> t \<and> t < 2 ^ 63 then Some t else Some (ovf r))
      | PNaN \<Rightarrow> None
      | PInf \<Rightarrow> None)"

definition coerce_codigo :: "(string \<Rightarrow> pnum) \<Rightarrow> (rat \<Rightarrow> int) \<Rightarrow> string \<Rightarrow> string option" where
  \<comment> \<open>\<open>pd.to_numeric(cell, errors='coerce').fillna(0).astype(int).astype(str)\<close> on one cell\<close>
  "coerce_codigo to_numeric ovf cell =
     map_option str_of_int (astype_int ovf (fillna0 (to_numeric cell)))"

fun coerce_rows ::
  "(string \<Rightarrow> pnum) \<Rightarrow> (rat \<Rightarrow> int) \<Rightarrow> (string \<times> string option) list \<Rightarrow> horarios_df option" where
  \<comment> \<open>the two column assignments, row by row; an exception in any row fails the load\<close>
  "coerce_rows to_numeric ovf [] = Some []"
| "coerce_rows to_numeric ovf ((codigo, ident) # rest) =
     (case coerce_codigo to_numeric ovf codigo of
        None \<Rightarrow> None
      | Some c \<Rightarrow>
          (case coerce_rows to_numeric ovf rest of
             None \<Rightarrow> None
           | Some df \<Rightarrow> Some ((c, map_option strip ident) # df)))"

definition load_horarios_mapping ::
  "(string \<Rightarrow> pnum) \<Rightarrow> (rat \<Rightarrow> int) \<Rightarrow> horarios_df option \<Rightarrow> horarios_csv option
   \<Rightarrow> horarios_df option \<times> horarios_df option" where
  \<comment> \<open>takes the global cache and the file (\<open>None\<close>: no such file); returns the frame
      (\<open>None\<close> on every error) and the new cache\<close>
  "load_horarios_mapping to_numeric ovf cache file =
     (case cache of
        Some df \<Rightarrow> (Some df, cache)
      | None \<Rightarrow>
          (case file of
             None \<Rightarrow> (None, None)
           | Some csv \<Rightarrow>
               (let missing_cols =
                      filter (\<lambda>col. col \<notin> set (hc_columns csv)) [col_codigo_horario, col_id_script]
                in if missing_cols \<noteq> [] then (None, None)
                   else (case coerce_rows to_numeric ovf (hc_rows csv) of
                           None \<Rightarrow> (None, None)
                         | Some df \<Rightarrow> (Some df, Some df)))))"

definition find_codigo_horario :: "string option \<Rightarrow> horarios_df option \<Rightarrow> string option" where
  \<comment> \<open>the first row whose \<open>ID SCRIPT\<close> equals the trimmed key gives the code\<close>
  "find_codigo_horario cod_escala horarios_df =
     (case horarios_df of
        None \<Rightarrow> None
      | Some df \<Rightarrow>
          (case cod_escala of
             None \<Rightarrow> None
           | Some ce \<Rightarrow>
               (let key = strip ce;
                    matches = filter (\<lambda>(codigo, ident). ident = Some key) df
                in (case matches of
                      [] \<Rightarrow> None
                    | (codigo, ident) # _ \<Rightarrow> Some (strip codigo)))))"

definition converter_formato_horario :: "string \<Rightarrow> string option" where
  \<comment> \<open>the pattern \<open>^(\d{4})-(\d{4})$\<close>: below 256 the decimal digits are 0-9, and \<open>$\<close>
      also matches before one final newline\<close>
  "converter_formato_horario cell_value =
     (let body = (if cell_value \<noteq> [] \<and> last cell_value = CHR 0x0A then butlast cell_value
                  else cell_value)
      in (case body of
            [a, b, c, d, h, e, f, g, i] \<Rightarrow>
              if list_all is_ascii_digit [a, b, c, d, e, f, g, i] \<and> h = CHR ''-''
              then Some [a, b, CHR '':'', c, d, e, f, CHR '':'', g, i]
              else None
          | _ \<Rightarrow> None))"

section \<open>data_convert: the grid conversion\<close>

definition date_formats :: "string list" where
  "date_formats = [''%d/%m/%Y'', ''%d/%m/%y'', ''%Y-%m-%d'', ''%d-%m-%Y'', ''%d-%m-%y'']"

fun first_parsed :: "(string \<Rightarrow> string \<Rightarrow> 'd option) \<Rightarrow> string \<Rightarrow> string list \<Rightarrow> 'd option" where
  \<comment> \<open>the loop over the formats: the first one that parses gives the date\<close>
  "first_parsed strptime date_str [] = None"
| "first_parsed strptime date_str (date_format # rest) =
     (case strptime date_str date_format of
        Some parsed_date \<Rightarrow> Some parsed_date
      | None \<Rightarrow> first_parsed strptime date_str rest)"

definition parse_date_flexible :: "(string \<Rightarrow> string \<Rightarrow> 'd option) \<Rightarrow> string \<Rightarrow> 'd option" where
  \<comment> \<open>\<open>datetime.strptime\<close> is a parameter: \<open>None\<close> stands for its \<open>ValueError\<close>\<close>
  "parse_date_flexible strptime date_str =
     (if date_str = [] then None
      else (let cleaned = filter (\<lambda>c. c \<noteq> CHR 0x27) (strip date_str);
                first_token = hd (split_on CHR '' '' cleaned)
            in first_parsed strptime first_token date_formats))"

definition date_columns_of ::
  "(string \<Rightarrow> string \<Rightarrow> 'd option) \<Rightarrow> string list \<Rightarrow> (nat \<times> string \<times> 'd) list" where
  \<comment> \<open>the columns from index 3 on whose trimmed name parses as a date, in header order\<close>
  "date_columns_of strptime header =
     concat (map (\<lambda>(i, col).
                    (let col_clean = strip col
                     in (case parse_date_flexible strptime col_clean of
                           Some parsed_date \<Rightarrow> [(i, col_clean, parsed_date)]
                         | None \<Rightarrow> [])))
                 (zip [3 ..< length header] (drop 3 header)))"

record stats =
  total_colaboradores :: nat
  total_registros :: nat
  vazio_busca :: nat
  fe_busca :: nat
  tr_busca :: nat
  fr_9999 :: nat
  asterisco_ignorado :: nat
  formato_convertido :: nat
  formato_convertido_fallback :: nat
  codigo_nao_encontrado :: nat

definition stats0 :: stats where
  "stats0 = \<lparr> total_colaboradores = 0, total_registros = 0, vazio_busca = 0, fe_busca = 0,
               tr_busca = 0, fr_9999 = 0, asterisco_ignorado = 0, formato_convertido = 0,
               formato_convertido_fallback = 0, codigo_nao_encontrado = 0 \<rparr>"

record registro =
  reg_id_colaborador :: string
  reg_nome :: string
  reg_data :: string
  reg_codigo_horario :: string

definition cell_value_of :: "string list \<Rightarrow> nat \<Rightarrow> string" where
  \<comment> \<open>the cell of a row, trimmed and upper-cased; a missing cell is empty\<close>
  "cell_value_of row col_index =
     (if col_index < length row then upper (strip (row ! col_index)) else [])"

definition apply_rules ::
  "horarios_df option \<Rightarrow> string option \<Rightarrow> string \<Rightarrow> stats \<Rightarrow> string option \<times> bool \<times> stats" where
  \<comment> \<open>the conversion rules for one cell, in the source's order: the result is
      \<open>(codigo_horario, skip_registro, stats)\<close>\<close>
  "apply_rules horarios_df codigo_base cell_value st =
     (if py_in ''**'' cell_value \<or> cell_value = ''**'' then
        (None, True, st\<lparr>asterisco_ignorado := asterisco_ignorado st + 1\<rparr>)
      else if cell_value = ''FR'' then
        (Some ''9999'', False, st\<lparr>fr_9999 := fr_9999 st + 1\<rparr>)
      else if truthy (converter_formato_horario cell_value) then
        (let formato = converter_formato_horario cell_value;
             codigo_horario = find_codigo_horario formato horarios_df
         in if truthy codigo_horario then
              (codigo_horario, False, st\<lparr>formato_convertido := formato_convertido st + 1\<rparr>)
            else if truthy codigo_base then
              (codigo_base, False,
               st\<lparr>formato_convertido_fallback := formato_convertido_fallback st + 1\<rparr>)
            else
              (codigo_horario, True, st\<lparr>codigo_nao_encontrado := codigo_nao_encontrado st + 1\<rparr>))
      else if cell_value = [] \<or> cell_value = ''FE'' \<or> cell_value = ''TR'' then
        (if truthy codigo_base then
           (codigo_base, False,
            (if cell_value = [] then st\<lparr>vazio_busca := vazio_busca st + 1\<rparr>
             else if cell_value = ''FE'' then st\<lparr>fe_busca := fe_busca st + 1\<rparr>
             else st\<lparr>tr_busca := tr_busca st + 1\<rparr>))
         else
           (None, True, st\<lparr>codigo_nao_encontrado := codigo_nao_encontrado st + 1\<rparr>))
      else
        (if truthy codigo_base then (codigo_base, False, st)
         else (None, True, st\<lparr>codigo_nao_encontrado := codigo_nao_encontrado st + 1\<rparr>)))"

definition process_cell ::
  "horarios_df option \<Rightarrow> string option \<Rightarrow> string \<Rightarrow> string \<Rightarrow> string list
   \<Rightarrow> registro list \<times> stats \<Rightarrow> nat \<times> string \<times> 'd \<Rightarrow> registro list \<times> stats" where
  \<comment> \<open>one pass of the loop over the date columns: the rules, then the record if any\<close>
  "process_cell horarios_df codigo_base nome mat row acc column =
     (case acc of (converted_rows, st) \<Rightarrow>
      (case column of (col_index, date_str, date_obj) \<Rightarrow>
       (case apply_rules horarios_df codigo_base (cell_value_of row col_index) st of
          (codigo_horario, skip_registro, st') \<Rightarrow>
            if \<not> skip_registro \<and> truthy codigo_horario then
              (converted_rows @
                 [\<lparr> reg_id_colaborador = ''303-1-'' @ mat, reg_nome = nome,
                    reg_data = date_str, reg_codigo_horario = the codigo_horario \<rparr>],
               st'\<lparr>total_registros := total_registros st' + 1\<rparr>)
            else (converted_rows, st'))))"

definition process_row ::
  "horarios_df option \<Rightarrow> (nat \<times> string \<times> 'd) list \<Rightarrow> registro list \<times> stats \<Rightarrow> string list
   \<Rightarrow> registro list \<times> stats" where
  \<comment> \<open>one pass of the loop over the data rows\<close>
  "process_row horarios_df date_columns acc row =
     (case acc of (converted_rows, st) \<Rightarrow>
      if length row < 3 then acc
      else (let nome = strip (row ! 0); mat = strip (row ! 1); cod_escala = strip (row ! 2)
            in if nome = [] \<or> mat = [] then acc
               else (let st1 = st\<lparr>total_colaboradores := total_colaboradores st + 1\<rparr>;
                         codigo_base = find_codigo_horario (Some cod_escala) horarios_df
                     in foldl (process_cell horarios_df codigo_base nome mat row)
                              (converted_rows, st1) date_columns)))"

datatype convert_error = InputNotFound | HorariosNotLoaded | EmptyInput | InvalidHeader

definition convert_dados_to_senior ::
  "(string \<Rightarrow> string \<Rightarrow> 'd option) \<Rightarrow> horarios_df option \<Rightarrow> string list list option
   \<Rightarrow> convert_error + registro list \<times> stats" where
  \<comment> \<open>takes the loaded table (\<open>None\<close>: the load failed) and the rows of the input file
      (\<open>None\<close>: no such file); returns the rows written and the statistics\<close>
  "convert_dados_to_senior strptime horarios_df input =
     (case input of
        None \<Rightarrow> Inl InputNotFound
      | Some lines \<Rightarrow>
          (if horarios_df = None then Inl HorariosNotLoaded
           else (case lines of
                   [] \<Rightarrow> Inl EmptyInput
                 | header # data_rows \<Rightarrow>
                     if length header < 4 then Inl InvalidHeader
                     else Inr (foldl (process_row horarios_df (date_columns_of strptime header))
                                     ([], stats0) data_rows))))"

section \<open>envio_escala_api_corrigido: the format detector\<close>

datatype formato = Grid | Api | Desconhecido

definition detectar_formato_csv :: "string list option \<Rightarrow> formato" where
  \<comment> \<open>takes the field names of the first line, split at semicolons (\<open>None\<close>: an empty
      file); the grid test comes first\<close>
  "detectar_formato_csv fieldnames =
     (case fieldnames of
        None \<Rightarrow> Desconhecido
      | Some header \<Rightarrow>
          (if header = [] then Desconhecido
           else (let header_clean = map (\<lambda>col. upper (strip col)) header;
                     has_nome = list_ex (\<lambda>col. py_in ''NOME'' col) header_clean;
                     has_mat = list_ex (\<lambda>col. py_in ''MAT'' col \<and> \<not> py_in ''MATRICULA'' col) header_clean;
                     has_cod_escala = list_ex (\<lambda>col. py_in ''COD'' col \<and> py_in ''ESCALA'' col) header_clean
                 in if has_nome \<and> has_mat \<and> has_cod_escala then Grid
                    else (let has_id = list_ex (\<lambda>col. py_in ''ID_COLABORADOR'' col) header_clean;
                              has_nome_api = list_ex (\<lambda>col. col = ''NOME'') header_clean;
                              has_data = list_ex (\<lambda>col. col = ''DATA'') header_clean;
                              has_codigo = list_ex (\<lambda>col. py_in ''CODIGO'' col \<and> py_in ''HORARIO'' col) header_clean
                          in if has_id \<and> has_nome_api \<and> has_data \<and> has_codigo then Api
                             else Desconhecido))))"

definition grid_criteria :: "string list \<Rightarrow> bool" where
  \<comment> \<open>the header has a name column, a \<open>MAT\<close> column that is not \<open>MATRICULA\<close> and a
      \<open>COD ... ESCALA\<close> column\<close>
  "grid_criteria header =
     (let header_clean = map (\<lambda>col. upper (strip col)) header
      in list_ex (\<lambda>col. py_in ''NOME'' col) header_clean
         \<and> list_ex (\<lambda>col. py_in ''MAT'' col \<and> \<not> py_in ''MATRICULA'' col) header_clean
         \<and> list_ex (\<lambda>col. py_in ''COD'' col \<and> py_in ''ESCALA'' col) header_clean)"

definition flat_criteria :: "string list \<Rightarrow> bool" where
  \<comment> \<open>the header has the identifier, name, date and schedule-code columns of the flat format\<close>
  "flat_criteria header =
     (let header_clean = map (\<lambda>col. upper (strip col)) header
      in list_ex (\<lambda>col. py_in ''ID_COLABORADOR'' col) header_clean
         \<and> list_ex (\<lambda>col. col = ''NOME'') header_clean
         \<and> list_ex (\<lambda>col. col = ''DATA'') header_clean
         \<and> list_ex (\<lambda>col. py_in ''CODIGO'' col \<and> py_in ''HORARIO'' col) header_clean)"

definition lower_char :: "char \<Rightarrow> char" where
  \<comment> \<open>32 above for A-Z and for the accented capitals 192-222 (215 is the times sign)\<close>
  "lower_char c =
     (let n = (of_char c :: nat)
      in if (65 \<le> n \<and> n \<le> 90) \<or> (192 \<le> n \<and> n \<le> 222 \<and> n \<noteq> 215)
         then char_of (n + 32) else c)"

definition lower :: "string \<Rightarrow> string" where
  \<comment> \<open>\<open>s.lower()\<close>\<close>
  "lower s = map lower_char s"

datatype rota = Converter | Abortar | EnviarComoApi

definition rota_do_formato :: "formato \<Rightarrow> string \<Rightarrow> rota" where
  \<comment> \<open>\<open>processar_escalas\<close>: for a grid file the user is asked; on yes the file goes to
      the conversion (and the run stops if the conversion fails), on any other answer the
      run stops. An api file and an unrecognised file are both read as the flat format,
      and nothing is asked.\<close>
  "rota_do_formato f resposta =
     (case f of
        Grid \<Rightarrow>
          (let converter = lower (strip resposta)
           in if converter \<in> set [''s'', ''sim'', ''y'', ''yes''] then Converter else Abortar)
      | Api \<Rightarrow> EnviarComoApi
      | Desconhecido \<Rightarrow> EnviarComoApi)"

section \<open>app: the format detector of the web front end\<close>

definition detectar_separador_csv :: "string \<Rightarrow> char" where
  \<comment> \<open>takes the first line: the semicolon when it has more semicolons than commas\<close>
  "detectar_separador_csv primeira_linha =
     (let virgulas = length (filter (\<lambda>c. c = CHR '','') primeira_linha);
          ponto_virgulas = length (filter (\<lambda>c. c = CHR '';'') primeira_linha)
      in if virgulas < ponto_virgulas then CHR '';'' else CHR '','')"

definition detectar_formato_csv_app :: "string \<Rightarrow> formato" where
  \<comment> \<open>\<open>app.detectar_formato_csv\<close>, on the first line of the file: the identifier column
      is tested first, and what is not clearly a grid is taken as the api format\<close>
  "detectar_formato_csv_app linha =
     (let separador = detectar_separador_csv linha;
          primeira_linha = strip linha;
          cabecalho_lower = lower primeira_linha
      in if py_in ''id_colaborador'' cabecalho_lower \<or> py_in ''id colaborador'' cabecalho_lower
         then Api
         else if py_in ''nome'' cabecalho_lower \<and> py_in ''mat'' cabecalho_lower
                 \<and> list_ex (\<lambda>parte. py_in ''/'' parte \<and> length parte = 10)
                            (drop 3 (split_on separador primeira_linha))
         then Grid
         else if py_in ''escala'' cabecalho_lower then Grid
         else Api)"

section \<open>envio_escala_api_corrigido: one submission with its retries\<close>

record colaborador =
  cd_id_colaborador :: string
  cd_nome :: string
  cd_data :: string
  cd_codigo_horario :: string
  cd_numero_cadastro :: string
  cd_numero_empresa :: string
  cd_tipo_colaborador :: string

record client =
  base_url :: string
  max_retries :: nat

text \<open>
  An outcome is the dictionary the client returns, without its two clock readings
  (\<open>tempo_resposta\<close>, \<open>timestamp\<close>). \<open>numero_retry\<close> is \<open>None\<close> while the key is absent.
\<close>

record resultado =
  res_id_colaborador :: string
  res_nome :: string
  res_data :: string
  res_codigo_horario :: string
  status_code :: nat
  status :: string
  response_text :: string
  erro :: string
  tentativas :: nat
  numero_retry :: "nat option"

record request =
  req_url :: string
  req_id :: string
  req_nome :: string
  req_numero_cadastro :: int
  req_numero_empresa :: int
  req_tipo_colaborador :: int
  req_data :: string
  req_codigo :: int

text \<open>What the remote call of one attempt does: a response, a timeout, or another failure.\<close>

datatype event = Response nat string | TimedOut | Failed string

datatype exn = TimeoutError | TokenExpiradoException string | ValueError string | OtherError string

definition py_isdigit :: "string \<Rightarrow> bool" where
  \<comment> \<open>\<open>s.isdigit()\<close>: below 256 the digits are 0-9 and the superscripts 1, 2, 3\<close>
  "py_isdigit s =
     (s \<noteq> [] \<and> list_all (\<lambda>c. is_ascii_digit c \<or> of_char c \<in> {178, 179, 185 :: nat}) s)"

fun nat_of_digits :: "nat \<Rightarrow> string \<Rightarrow> nat" where
  "nat_of_digits acc [] = acc"
| "nat_of_digits acc (c # cs) = nat_of_digits (10 * acc + (of_char c - 48)) cs"

definition valid_int_body :: "string \<Rightarrow> bool" where
  \<comment> \<open>digits, with single underscores allowed between them\<close>
  "valid_int_body b =
     list_all (\<lambda>g. g \<noteq> [] \<and> list_all is_ascii_digit g) (split_on CHR ''_'' b)"

definition int_isspace :: "char \<Rightarrow> bool" where
  \<comment> \<open>the whitespace \<open>int()\<close> skips around a literal: the ASCII whitespace and, above
      ASCII, 133 and 160; the separators 28-31 that \<open>strip()\<close> removes are not skipped\<close>
  "int_isspace c =
     (let n = (of_char c :: nat)
      in (9 \<le> n \<and> n \<le> 13) \<or> n = 32 \<or> n = 133 \<or> n = 160)"

definition hex_digit :: "nat \<Rightarrow> char" where
  "hex_digit k = (if k < 10 then char_of (48 + k) else char_of (87 + k))"

definition repr_char :: "char \<Rightarrow> char \<Rightarrow> string" where
  \<comment> \<open>one character inside \<open>repr(s)\<close>, for the quote \<open>q\<close> chosen\<close>
  "repr_char q c =
     (let n = (of_char c :: nat)
      in if c = CHR 0x5C then [CHR 0x5C, CHR 0x5C]
         else if c = q then [CHR 0x5C, q]
         else if n = 10 then [CHR 0x5C, CHR ''n'']
         else if n = 13 then [CHR 0x5C, CHR ''r'']
         else if n = 9 then [CHR 0x5C, CHR ''t'']
         else if n < 32 \<or> (127 \<le> n \<and> n \<le> 160) \<or> n = 173
         then [CHR 0x5C, CHR ''x'', hex_digit (n div 16), hex_digit (n mod 16)]
         else [c])"

definition py_repr :: "string \<Rightarrow> string" where
  \<comment> \<open>\<open>repr(s)\<close>: single quotes, or double quotes when the text has a single quote and
      no double one; backslash escapes for the quote, the backslash and what does not print\<close>
  "py_repr s =
     (let q = (if CHR 0x27 \<in> set s \<and> CHR 0x22 \<notin> set s then CHR 0x22 else CHR 0x27)
      in q # concat (map (repr_char q) s) @ [q])"

definition py_int :: "string \<Rightarrow> exn + int" where
  \<comment> \<open>\<open>int(s)\<close> of a string: surrounding whitespace, one optional sign, decimal digits\<close>
  "py_int s =
     (let t = rev (dropWhile int_isspace (rev (dropWhile int_isspace s)));
          neg = (t \<noteq> [] \<and> hd t = CHR ''-'');
          body = (if t \<noteq> [] \<and> (hd t = CHR ''-'' \<or> hd t = CHR ''+'') then tl t else t)
      in if valid_int_body body
         then (let n = int (nat_of_digits 0 (filter (\<lambda>c. c \<noteq> CHR ''_'') body))
               in Inr (if neg then - n else n))
         else Inl (ValueError (''invalid literal for int() with base 10: '' @ py_repr s)))"

definition str_exn :: "exn \<Rightarrow> string" where
  \<comment> \<open>\<open>str(e)\<close>\<close>
  "str_exn e =
     (case e of
        TimeoutError \<Rightarrow> []
      | TokenExpiradoException msg \<Rightarrow> msg
      | ValueError msg \<Rightarrow> msg
      | OtherError msg \<Rightarrow> msg)"

definition zfill2 :: "string \<Rightarrow> string" where
  \<comment> \<open>\<open>s.zfill(2)\<close>: the padding goes after a leading sign\<close>
  "zfill2 s =
     (if 2 \<le> length s then s
      else if s = [] then ''00''
      else if s = ''+'' \<or> s = ''-'' then s @ ''0''
      else CHR ''0'' # s)"

definition converter_data :: "string \<Rightarrow> string" where
  \<comment> \<open>a date with slashes and three parts is rewritten year first\<close>
  "converter_data data_original =
     (if py_in ''/'' data_original
      then (let partes_data = split_on CHR ''/'' data_original
            in if length partes_data = 3
               then partes_data ! 2 @ ''-'' @ zfill2 (partes_data ! 1) @ ''-'' @ zfill2 (partes_data ! 0)
               else data_original)
      else data_original)"

definition numero_ou_padrao :: "string \<Rightarrow> string \<Rightarrow> exn + string" where
  \<comment> \<open>\<open>str(int(x)) if x.isdigit() else default\<close>\<close>
  "numero_ou_padrao x padrao =
     (if py_isdigit x
      then (case py_int x of Inl e \<Rightarrow> Inl e | Inr n \<Rightarrow> Inr (str_of_int n))
      else Inr padrao)"

definition numeros_validos :: "string \<Rightarrow> string \<Rightarrow> string \<Rightarrow> string \<times> string \<times> string" where
  \<comment> \<open>the three validations run in one \<open>try\<close>: a \<open>ValueError\<close> in any of them resets all three\<close>
  "numeros_validos numero_empresa tipo_colaborador numero_cadastro =
     (case (numero_ou_padrao numero_empresa ''303'',
            numero_ou_padrao tipo_colaborador ''1'',
            numero_ou_padrao numero_cadastro ''1'') of
        (Inr e, Inr t, Inr c) \<Rightarrow> (e, t, c)
      | _ \<Rightarrow> (''303'', ''1'', ''1''))"

definition campo_ou_id :: "string \<Rightarrow> string list \<Rightarrow> nat \<Rightarrow> string \<Rightarrow> string" where
  \<comment> \<open>the field of the record when it is not blank, else part \<open>k\<close> of the identifier,
      else the default\<close>
  "campo_ou_id campo_csv partes_id k padrao =
     (if campo_csv \<noteq> [] then campo_csv
      else if k < length partes_id \<and> partes_id ! k \<noteq> [] then partes_id ! k
      else padrao)"

definition build_request ::
  "client \<Rightarrow> string \<Rightarrow> string \<Rightarrow> string \<Rightarrow> string \<Rightarrow> colaborador \<Rightarrow> exn + request" where
  \<comment> \<open>the URL and the JSON body of one attempt; \<open>int(codigo_horario)\<close> may raise\<close>
  "build_request cl id_colaborador nome data_original codigo_horario colaborador_data =
     (let data = converter_data data_original;
          partes_id = split_on CHR ''-'' id_colaborador;
          numero_empresa_csv = strip (cd_numero_empresa colaborador_data);
          tipo_colaborador_csv = strip (cd_tipo_colaborador colaborador_data);
          numero_cadastro_csv = strip (cd_numero_cadastro colaborador_data);
          numero_empresa = campo_ou_id numero_empresa_csv partes_id 0 ''303'';
          tipo_colaborador = campo_ou_id tipo_colaborador_csv partes_id 1 ''1'';
          numero_cadastro = campo_ou_id numero_cadastro_csv partes_id 2 ''1''
      in (case numeros_validos numero_empresa tipo_colaborador numero_cadastro of
            (empresa, tipo, cadastro) \<Rightarrow>
              (case py_int cadastro of Inl e \<Rightarrow> Inl e | Inr n_cadastro \<Rightarrow>
              (case py_int empresa of Inl e \<Rightarrow> Inl e | Inr n_empresa \<Rightarrow>
              (case py_int tipo of Inl e \<Rightarrow> Inl e | Inr n_tipo \<Rightarrow>
              (case py_int codigo_horario of Inl e \<Rightarrow> Inl e | Inr n_codigo \<Rightarrow>
                 Inr \<lparr> req_url = base_url cl @ ''/colaboradores/'' @ id_colaborador
                                  @ ''/programacoes/trocas-horarios/'' @ id_colaborador @ ''-'' @ data,
                       req_id = id_colaborador, req_nome = nome,
                       req_numero_cadastro = n_cadastro, req_numero_empresa = n_empresa,
                       req_tipo_colaborador = n_tipo, req_data = data, req_codigo = n_codigo \<rparr>))))))"

definition msg_token_expirado :: string where
  \<comment> \<open>the message of the exception raised on 401 (its accented letters by code point)\<close>
  "msg_token_expirado =
     ''Token de autentica'' @ [char_of (231::nat), char_of (227::nat)] @ ''o expirado ou inv''
       @ [char_of (225::nat)] @ ''lido''"

definition msg_timeout :: string where
  "msg_timeout =
     ''Timeout na requisi'' @ [char_of (231::nat), char_of (227::nat)] @ ''o ap''
       @ [char_of (243::nat)] @ ''s 3 tentativas (60s cada)''"

datatype step = Return resultado | Retry rat

definition attempt ::
  "client \<Rightarrow> (request \<Rightarrow> nat \<Rightarrow> event) \<Rightarrow> string \<Rightarrow> string \<Rightarrow> string \<Rightarrow> string \<Rightarrow> colaborador
   \<Rightarrow> nat \<Rightarrow> exn + step" where
  \<comment> \<open>the body of the \<open>try\<close> of attempt \<open>tentativa\<close>: what it returns, or the sleep before
      the next attempt, or the exception it raises\<close>
  "attempt cl remote id_colaborador nome data_original codigo_horario colaborador_data tentativa =
     (case build_request cl id_colaborador nome data_original codigo_horario colaborador_data of
        Inl e \<Rightarrow> Inl e
      | Inr req \<Rightarrow>
          (case remote req tentativa of
             TimedOut \<Rightarrow> Inl TimeoutError
           | Failed msg \<Rightarrow> Inl (OtherError msg)
           | Response st text \<Rightarrow>
               (let result = \<lparr> res_id_colaborador = id_colaborador, res_nome = nome,
                                res_data = req_data req, res_codigo_horario = codigo_horario,
                                status_code = st,
                                status = (if st \<in> {200, 201, 204} then ''sucesso'' else ''erro''),
                                response_text = take 500 text, erro = [],
                                tentativas = tentativa, numero_retry = None \<rparr>
                in if st = 401 then Inl (TokenExpiradoException msg_token_expirado)
                   else if st \<in> {200, 201, 204} then Inr (Return result)
                   else if tentativa < max_retries cl
                   then Inr (Retry ((1 / 2) * 2 ^ (tentativa - 1)))
                   else Inr (Return result))))"

definition tentativa_step ::
  "client \<Rightarrow> (request \<Rightarrow> nat \<Rightarrow> event) \<Rightarrow> string \<Rightarrow> string \<Rightarrow> string \<Rightarrow> string \<Rightarrow> colaborador
   \<Rightarrow> nat \<Rightarrow> step" where
  \<comment> \<open>one pass of the loop: the \<open>try\<close> with its two \<open>except\<close> clauses, the timeouts first,
      then every other \<open>Exception\<close>\<close>
  "tentativa_step cl remote id_colaborador nome data_original codigo_horario colaborador_data tentativa =
     (case attempt cl remote id_colaborador nome data_original codigo_horario colaborador_data tentativa of
        Inr s \<Rightarrow> s
      | Inl TimeoutError \<Rightarrow>
          (if tentativa < max_retries cl then Retry (2 * 2 ^ (tentativa - 1))
           else Return \<lparr> res_id_colaborador = id_colaborador, res_nome = nome,
                         res_data = data_original, res_codigo_horario = codigo_horario,
                         status_code = 0, status = ''timeout'', response_text = msg_timeout,
                         erro = ''Timeout'', tentativas = tentativa, numero_retry = None \<rparr>)
      | Inl e \<Rightarrow>
          (if tentativa < max_retries cl then Retry ((1 / 2) * 2 ^ (tentativa - 1))
           else Return \<lparr> res_id_colaborador = id_colaborador, res_nome = nome,
                         res_data = data_original, res_codigo_horario = codigo_horario,
                         status_code = 0, status = ''erro'', response_text = str_exn e,
                         erro = str_exn e, tentativas = tentativa, numero_retry = None \<rparr>))"

function tentar_envio_from ::
  "client \<Rightarrow> (request \<Rightarrow> nat \<Rightarrow> event) \<Rightarrow> string \<Rightarrow> string \<Rightarrow> string \<Rightarrow> string \<Rightarrow> colaborador
   \<Rightarrow> nat \<Rightarrow> resultado \<times> rat list" where
  \<comment> \<open>the loop \<open>for tentativa in range(1, max_retries + 1)\<close> from \<open>tentativa\<close> on: the
      outcome and the sleeps made, in order\<close>
  "tentar_envio_from cl remote id_colaborador nome data_original codigo_horario colaborador_data tentativa =
     (if max_retries cl < tentativa then
        (\<lparr> res_id_colaborador = id_colaborador, res_nome = nome, res_data = data_original,
            res_codigo_horario = codigo_horario, status_code = 0, status = ''erro'',
            response_text = ''Falha desconhecida'', erro = ''Falha desconhecida'',
            tentativas = max_retries cl, numero_retry = None \<rparr>, [])
      else (case tentativa_step cl remote id_colaborador nome data_original codigo_horario
                   colaborador_data tentativa of
              Return r \<Rightarrow> (r, [])
            | Retry delay \<Rightarrow>
                (case tentar_envio_from cl remote id_colaborador nome data_original codigo_horario
                        colaborador_data (Suc tentativa) of
                   (r, delays) \<Rightarrow> (r, delay # delays))))"
  by pat_completeness auto
termination
  by (relation "measure (\<lambda>(cl, remote, i, n, d, c, cd, tentativa). Suc (max_retries cl) - tentativa)")
     auto

declare tentar_envio_from.simps [simp del]

definition tentar_envio ::
  "client \<Rightarrow> (request \<Rightarrow> nat \<Rightarrow> event) \<Rightarrow> string \<Rightarrow> string \<Rightarrow> string \<Rightarrow> string \<Rightarrow> colaborador
   \<Rightarrow> resultado \<times> rat list" where
  "tentar_envio cl remote id_colaborador nome data_original codigo_horario colaborador_data =
     tentar_envio_from cl remote id_colaborador nome data_original codigo_horario colaborador_data 1"

definition enviar_programacao ::
  "client \<Rightarrow> (request \<Rightarrow> nat \<Rightarrow> event) \<Rightarrow> colaborador \<Rightarrow> exn + resultado \<times> rat list" where
  \<comment> \<open>the task of one record, between the acquire and the release of the semaphore; the
      loop above handles every exception of an attempt, so the task returns an outcome\<close>
  "enviar_programacao cl remote colaborador_data =
     Inr (tentar_envio cl remote (cd_id_colaborador colaborador_data) (cd_nome colaborador_data)
            (cd_data colaborador_data) (cd_codigo_horario colaborador_data) colaborador_data)"

definition processar_lote ::
  "client \<Rightarrow> (nat \<Rightarrow> request \<Rightarrow> nat \<Rightarrow> event) \<Rightarrow> colaborador list \<Rightarrow> exn + resultado list" where
  \<comment> \<open>\<open>gather(..., return_exceptions=True)\<close>: an exception of a task becomes an outcome
      with 0 attempts, so the batch itself returns a list; \<open>Inl\<close> would be an exception
      leaving the batch\<close>
  "processar_lote cl remotes colaboradores =
     Inr (map (\<lambda>(i, colaborador).
                 (case enviar_programacao cl (remotes i) colaborador of
                    Inl e \<Rightarrow>
                      \<lparr> res_id_colaborador = cd_id_colaborador colaborador,
                        res_nome = cd_nome colaborador, res_data = cd_data colaborador,
                        res_codigo_horario = cd_codigo_horario colaborador,
                        status_code = 0, status = ''erro'', response_text = str_exn e,
                        erro = str_exn e, tentativas = 0, numero_retry = None \<rparr>
                  | Inr (resultado, delays) \<Rightarrow> resultado))
              (zip [0 ..< length colaboradores] colaboradores))"

section \<open>envio_escala_api_corrigido: the retry cycles\<close>

definition separar_sucessos_e_erros :: "resultado list \<Rightarrow> resultado list \<times> resultado list" where
  "separar_sucessos_e_erros resultados =
     (filter (\<lambda>r. status r = ''sucesso'') resultados,
      filter (\<lambda>r. status r \<noteq> ''sucesso'') resultados)"

definition chave :: "resultado \<Rightarrow> string" where
  \<comment> \<open>the key of an outcome: identifier, underscore, date\<close>
  "chave r = res_id_colaborador r @ ''_'' @ res_data r"

definition colaborador_retry :: "resultado \<Rightarrow> colaborador" where
  \<comment> \<open>the record resubmitted for a failed outcome\<close>
  "colaborador_retry e =
     \<lparr> cd_id_colaborador = res_id_colaborador e, cd_nome = res_nome e, cd_data = res_data e,
       cd_codigo_horario = res_codigo_horario e, cd_numero_cadastro = [],
       cd_numero_empresa = [], cd_tipo_colaborador = ''1'' \<rparr>"

definition novos_resultados_dict :: "nat \<Rightarrow> resultado list \<Rightarrow> (string \<rightharpoonup> resultado)" where
  \<comment> \<open>the new outcomes by key, each tagged with the cycle number; a later one wins\<close>
  "novos_resultados_dict numero_ciclo_retry resultados_retry =
     fold (\<lambda>novo d. (let novo' = novo\<lparr>numero_retry := Some numero_ciclo_retry\<rparr>
                      in d(chave novo' \<mapsto> novo')))
          resultados_retry Map.empty"

definition atualizar_resultados :: "(string \<rightharpoonup> resultado) \<Rightarrow> resultado list \<Rightarrow> resultado list" where
  \<comment> \<open>every stored outcome whose key is among the new ones is replaced in place\<close>
  "atualizar_resultados d resultados =
     map (\<lambda>resultado. (case d (chave resultado) of Some novo \<Rightarrow> novo | None \<Rightarrow> resultado))
         resultados"

record ciclo =
  ci_resultados :: "resultado list"
  ci_novos :: "resultado list"
  ci_reenviados :: "colaborador list"
  ci_numero :: nat
  ci_continua :: bool

definition retry_cycle ::
  "client \<Rightarrow> (nat \<Rightarrow> request \<Rightarrow> nat \<Rightarrow> event) \<Rightarrow> bool \<Rightarrow> resultado list \<Rightarrow> nat \<Rightarrow> exn + ciclo" where
  \<comment> \<open>one pass of the retry loop of \<open>processar_escalas\<close>. \<open>quer_retry\<close> is the user's answer
      to the menu, asked only when an outcome failed. The result holds the store, the new
      outcomes, the records resubmitted, the cycle counter and whether the loop goes on.\<close>
  "retry_cycle cl remotes quer_retry resultados numero_ciclo_retry =
     (case separar_sucessos_e_erros resultados of
        (sucessos_lista, erros_lista) \<Rightarrow>
          if erros_lista = [] then
            Inr \<lparr> ci_resultados = resultados, ci_novos = [], ci_reenviados = [],
                  ci_numero = numero_ciclo_retry, ci_continua = False \<rparr>
          else if \<not> quer_retry then
            Inr \<lparr> ci_resultados = resultados, ci_novos = [], ci_reenviados = [],
                  ci_numero = numero_ciclo_retry, ci_continua = False \<rparr>
          else
            (let numero = numero_ciclo_retry + 1;
                 colaboradores_retry = map colaborador_retry erros_lista
             in (case processar_lote cl remotes colaboradores_retry of
                   Inl e \<Rightarrow> Inl e
                 | Inr resultados_retry \<Rightarrow>
                     Inr \<lparr> ci_resultados =
                             atualizar_resultados
                               (novos_resultados_dict numero resultados_retry) resultados,
                           ci_novos = map (\<lambda>novo. novo\<lparr>numero_retry := Some numero\<rparr>) resultados_retry,
                           ci_reenviados = colaboradores_retry,
                           ci_numero = numero, ci_continua = True \<rparr>)))"

definition primeiro_envio ::
  "client \<Rightarrow> (nat \<Rightarrow> request \<Rightarrow> nat \<Rightarrow> event) \<Rightarrow> colaborador list \<Rightarrow> exn + resultado list" where
  \<comment> \<open>the first pass of \<open>processar_escalas\<close>: the batch, then \<open>numero_retry = 0\<close> on every outcome\<close>
  "primeiro_envio cl remotes colaboradores =
     (case processar_lote cl remotes colaboradores of
        Inl e \<Rightarrow> Inl e
      | Inr resultados \<Rightarrow> Inr (map (\<lambda>r. r\<lparr>numero_retry := Some 0\<rparr>) resultados))"

section \<open>envio_escala_api_corrigido: the semaphore of a batch\<close>

text \<open>
  The tasks of a batch share one counting semaphore, created with the value
  \<open>max_concurrent\<close>. A task acquires it before its submission and releases it when the
  submission ends, however it ends. The schedule is any interleaving of these two steps.
\<close>

datatype task = Pending | InFlight | Finished

record lote_state =
  sem_value :: nat
  tasks :: "task list"

definition lote_init :: "nat \<Rightarrow> nat \<Rightarrow> lote_state" where
  "lote_init max_concurrent n = \<lparr> sem_value = max_concurrent, tasks = replicate n Pending \<rparr>"

inductive lote_step :: "lote_state \<Rightarrow> lote_state \<Rightarrow> bool" where
  acquire:
    "i < length (tasks s) \<Longrightarrow> tasks s ! i = Pending \<Longrightarrow> 0 < sem_value s \<Longrightarrow>
     lote_step s (s\<lparr>sem_value := sem_value s - 1, tasks := (tasks s)[i := InFlight]\<rparr>)"
| release:
    "i < length (tasks s) \<Longrightarrow> tasks s ! i = InFlight \<Longrightarrow>
     lote_step s (s\<lparr>sem_value := sem_value s + 1, tasks := (tasks s)[i := Finished]\<rparr>)"

inductive lote_reachable :: "nat \<Rightarrow> nat \<Rightarrow> lote_state \<Rightarrow> bool" where
  reach_init: "lote_reachable max_concurrent n (lote_init max_concurrent n)"
| reach_step: "lote_reachable max_concurrent n s \<Longrightarrow> lote_step s s' \<Longrightarrow>
               lote_reachable max_concurrent n s'"

code_pred lote_step .

definition in_flight :: "lote_state \<Rightarrow> nat" where
  \<comment> \<open>the submissions outstanding in a state\<close>
  "in_flight s = length (filter (\<lambda>t. t = InFlight) (tasks s))"

section \<open>Predicates of the properties\<close>

definition is_integer_text :: "string \<Rightarrow> bool" where
  \<comment> \<open>an optional minus sign, then digits only, at least one\<close>
  "is_integer_text s =
     (case s of
        [] \<Rightarrow> False
      | c # cs \<Rightarrow> if c = CHR ''-'' then cs \<noteq> [] \<and> list_all is_ascii_digit cs
                  else list_all is_ascii_digit (c # cs))"

section \<open>Facts about the string functions\<close>

lemma digit_not_space: "is_ascii_digit c \<Longrightarrow> \<not> py_isspace c"
  by (auto simp: is_ascii_digit_def py_isspace_def Let_def)

lemma star_not_digit: "is_ascii_digit c \<Longrightarrow> CHR ''*'' \<noteq> c"
  by (auto simp: is_ascii_digit_def)

lemma digit_not_F: "is_ascii_digit c \<Longrightarrow> c \<noteq> CHR ''F''"
  by (auto simp: is_ascii_digit_def)

lemma digit_not_newline: "is_ascii_digit c \<Longrightarrow> c \<noteq> CHR 0x0A"
  by (auto simp: is_ascii_digit_def)

lemma strip_no_space_ends:
  assumes "s \<noteq> []" "\<not> py_isspace (hd s)" "\<not> py_isspace (last s)"
  shows "strip s = s"
proof -
  from assms have a: "dropWhile py_isspace s = s"
    by (cases s) simp_all
  from assms have "rev s \<noteq> []" "\<not> py_isspace (hd (rev s))"
    by (simp_all add: hd_rev)
  then have b: "dropWhile py_isspace (rev s) = rev s"
    by (cases "rev s") simp_all
  show ?thesis by (simp add: strip_def a b)
qed

lemma is_ascii_digit_digit_char: "d < 10 \<Longrightarrow> is_ascii_digit (digit_char d)"
  by (simp add: is_ascii_digit_def digit_char_def)

lemma str_of_nat_digits: "str_of_nat n \<noteq> [] \<and> list_all is_ascii_digit (str_of_nat n)"
proof (induction n rule: str_of_nat.induct)
  case (1 n)
  show ?case
  proof (cases "n < 10")
    case True
    then show ?thesis
      by (subst (1 2) str_of_nat.simps) (simp add: is_ascii_digit_digit_char)
  next
    case False
    with 1 show ?thesis
      by (subst (1 2) str_of_nat.simps) (simp add: is_ascii_digit_digit_char)
  qed
qed

section \<open>Lookups in the reference table\<close>

lemma find_no_match:
  assumes "\<forall>(codigo, ident) \<in> set df. ident \<noteq> Some (strip key)"
  shows "find_codigo_horario (Some key) (Some df) = None"
proof -
  from assms have "filter (\<lambda>(codigo, ident). ident = Some (strip key)) df = []"
    by (auto simp: filter_empty_conv)
  then show ?thesis by (simp add: find_codigo_horario_def)
qed

lemma filter_first_match:
  "i < length xs \<Longrightarrow> P (xs ! i) \<Longrightarrow> \<forall>j < i. \<not> P (xs ! j) \<Longrightarrow>
   \<exists>rest. filter P xs = xs ! i # rest"
proof (induction xs arbitrary: i)
  case Nil
  then show ?case by simp
next
  case (Cons x xs)
  show ?case
  proof (cases i)
    case 0
    with Cons.prems show ?thesis by simp
  next
    case (Suc k)
    with Cons.prems have nx: "\<not> P x" by auto
    from Cons.prems Suc have "k < length xs" "P (xs ! k)" "\<forall>j < k. \<not> P (xs ! j)"
      by auto
    from Cons.IH [OF this] nx Suc show ?thesis by simp
  qed
qed

lemma find_first_match:
  assumes "i < length df" "snd (df ! i) = Some (strip key)"
    "\<forall>j < i. snd (df ! j) \<noteq> Some (strip key)"
  shows "find_codigo_horario (Some key) (Some df) = Some (strip (fst (df ! i)))"
proof -
  let ?P = "\<lambda>(codigo, ident). ident = Some (strip key)"
  from assms have "?P (df ! i)" "\<forall>j < i. \<not> ?P (df ! j)"
    by (auto simp: case_prod_beta)
  from filter_first_match [of i df ?P, OF assms(1) this]
  obtain rest where "filter ?P df = df ! i # rest" by blast
  then show ?thesis
    by (simp add: find_codigo_horario_def case_prod_beta)
qed

section \<open>The conversion rules of a grid cell\<close>

lemma time_range_rules:
  assumes digits: "list_all is_ascii_digit [a, b, c, d, e, f, g, h]"
  shows "converter_formato_horario [a, b, c, d, CHR ''-'', e, f, g, h]
           = Some [a, b, CHR '':'', c, d, e, f, CHR '':'', g, h]"
    and "\<not> py_in ''**'' [a, b, c, d, CHR ''-'', e, f, g, h]"
    and "strip [a, b, CHR '':'', c, d, e, f, CHR '':'', g, h]
           = [a, b, CHR '':'', c, d, e, f, CHR '':'', g, h]"
proof -
  from digits have nl: "h \<noteq> CHR 0x0A" by (simp add: digit_not_newline)
  with digits show "converter_formato_horario [a, b, c, d, CHR ''-'', e, f, g, h]
           = Some [a, b, CHR '':'', c, d, e, f, CHR '':'', g, h]"
    by (simp add: converter_formato_horario_def)
  from digits show "\<not> py_in ''**'' [a, b, c, d, CHR ''-'', e, f, g, h]"
    by (simp add: star_not_digit)
  from digits show "strip [a, b, CHR '':'', c, d, e, f, CHR '':'', g, h]
                      = [a, b, CHR '':'', c, d, e, f, CHR '':'', g, h]"
    by (intro strip_no_space_ends) (simp_all add: digit_not_space)
qed

lemma time_range_apply_rules:
  assumes digits: "list_all is_ascii_digit [a, b, c, d, e, f, g, h]"
  shows "apply_rules (Some df) codigo_base [a, b, c, d, CHR ''-'', e, f, g, h] st =
           (let codigo_horario =
                  find_codigo_horario (Some [a, b, CHR '':'', c, d, e, f, CHR '':'', g, h]) (Some df)
            in if truthy codigo_horario then
                 (codigo_horario, False, st\<lparr>formato_convertido := formato_convertido st + 1\<rparr>)
               else if truthy codigo_base then
                 (codigo_base, False,
                  st\<lparr>formato_convertido_fallback := formato_convertido_fallback st + 1\<rparr>)
               else
                 (codigo_horario, True,
                  st\<lparr>codigo_nao_encontrado := codigo_nao_encontrado st + 1\<rparr>))"
  using digits time_range_rules(1,2) [OF digits]
  by (simp add: apply_rules_def truthy_def digit_not_F star_not_digit Let_def)

lemma time_range_found_step:
  assumes cell: "cell_value_of row col_index = [a, b, c, d, CHR ''-'', e, f, g, h]"
    and digits: "list_all is_ascii_digit [a, b, c, d, e, f, g, h]"
    and found: "i < length df"
      "snd (df ! i) = Some [a, b, CHR '':'', c, d, e, f, CHR '':'', g, h]"
      "\<forall>j < i. snd (df ! j) \<noteq> Some [a, b, CHR '':'', c, d, e, f, CHR '':'', g, h]"
    and code: "strip (fst (df ! i)) \<noteq> []"
  shows "process_cell (Some df) codigo_base nome mat row (converted_rows, st)
                      (col_index, date_str, date_obj)
           = (converted_rows @
                [\<lparr> reg_id_colaborador = ''303-1-'' @ mat, reg_nome = nome,
                   reg_data = date_str, reg_codigo_horario = strip (fst (df ! i)) \<rparr>],
              st\<lparr>formato_convertido := formato_convertido st + 1,
                 total_registros := total_registros st + 1\<rparr>)"
proof -
  let ?key = "[a, b, CHR '':'', c, d, e, f, CHR '':'', g, h]"
  note r = time_range_rules [OF digits]
  from found have "find_codigo_horario (Some ?key) (Some df) = Some (strip (fst (df ! i)))"
    by (intro find_first_match) (simp_all add: r(3))
  then have "apply_rules (Some df) codigo_base [a, b, c, d, CHR ''-'', e, f, g, h] st
               = (Some (strip (fst (df ! i))), False,
                  st\<lparr>formato_convertido := formato_convertido st + 1\<rparr>)"
    using code by (simp add: time_range_apply_rules [OF digits] truthy_def)
  then show ?thesis
    using code by (simp add: process_cell_def cell truthy_def)
qed

lemma time_range_cell_step:
  assumes cell: "cell_value_of row col_index = [a, b, c, d, CHR ''-'', e, f, g, h]"
    and digits: "list_all is_ascii_digit [a, b, c, d, e, f, g, h]"
    and nomatch: "\<forall>(codigo, ident) \<in> set df.
                    ident \<noteq> Some [a, b, CHR '':'', c, d, e, f, CHR '':'', g, h]"
    and base: "cb \<noteq> []"
  shows "process_cell (Some df) (Some cb) nome mat row (converted_rows, st)
                      (col_index, date_str, date_obj)
           = (converted_rows @
                [\<lparr> reg_id_colaborador = ''303-1-'' @ mat, reg_nome = nome,
                   reg_data = date_str, reg_codigo_horario = cb \<rparr>],
              st\<lparr>formato_convertido_fallback := formato_convertido_fallback st + 1,
                 total_registros := total_registros st + 1\<rparr>)"
proof -
  let ?key = "[a, b, CHR '':'', c, d, e, f, CHR '':'', g, h]"
  note r = time_range_rules [OF digits]
  from nomatch have "find_codigo_horario (Some ?key) (Some df) = None"
    by (intro find_no_match) (simp add: r(3))
  then have "apply_rules (Some df) (Some cb) [a, b, c, d, CHR ''-'', e, f, g, h] st
               = (Some cb, False,
                  st\<lparr>formato_convertido_fallback := formato_convertido_fallback st + 1\<rparr>)"
    using base by (simp add: time_range_apply_rules [OF digits] truthy_def)
  then show ?thesis
    by (simp add: process_cell_def cell truthy_def base)
qed

lemma time_range_skip_step:
  assumes cell: "cell_value_of row col_index = [a, b, c, d, CHR ''-'', e, f, g, h]"
    and digits: "list_all is_ascii_digit [a, b, c, d, e, f, g, h]"
    and nomatch: "\<forall>(codigo, ident) \<in> set df.
                    ident \<noteq> Some [a, b, CHR '':'', c, d, e, f, CHR '':'', g, h]"
    and base: "\<not> truthy codigo_base"
  shows "process_cell (Some df) codigo_base nome mat row (converted_rows, st)
                      (col_index, date_str, date_obj)
           = (converted_rows, st\<lparr>codigo_nao_encontrado := codigo_nao_encontrado st + 1\<rparr>)"
proof -
  let ?key = "[a, b, CHR '':'', c, d, e, f, CHR '':'', g, h]"
  note r = time_range_rules [OF digits]
  from nomatch have "find_codigo_horario (Some ?key) (Some df) = None"
    by (intro find_no_match) (simp add: r(3))
  then have "apply_rules (Some df) codigo_base [a, b, c, d, CHR ''-'', e, f, g, h] st
               = (None, True, st\<lparr>codigo_nao_encontrado := codigo_nao_encontrado st + 1\<rparr>)"
    using base by (simp add: time_range_apply_rules [OF digits] truthy_def)
  then show ?thesis
    by (simp add: process_cell_def cell)
qed

lemma fr_cell_step:
  assumes cell: "cell_value_of row col_index = ''FR''"
  shows "process_cell horarios_df codigo_base nome mat row (converted_rows, st)
                      (col_index, date_str, date_obj)
           = (converted_rows @
                [\<lparr> reg_id_colaborador = ''303-1-'' @ mat, reg_nome = nome,
                   reg_data = date_str, reg_codigo_horario = ''9999'' \<rparr>],
              st\<lparr>fr_9999 := fr_9999 st + 1, total_registros := total_registros st + 1\<rparr>)"
proof -
  have "apply_rules horarios_df codigo_base ''FR'' st
          = (Some ''9999'', False, st\<lparr>fr_9999 := fr_9999 st + 1\<rparr>)"
    by (simp add: apply_rules_def)
  then show ?thesis
    by (simp add: process_cell_def cell truthy_def)
qed

section \<open>The records of a cell reach the output of the conversion\<close>

lemma foldl_grows:
  assumes grows: "\<And>acc c. prefix (fst acc) (fst (f acc c))"
  shows "prefix (fst acc) (fst (foldl f acc cs))"
proof (induction cs arbitrary: acc)
  case Nil
  show ?case by simp
next
  case (Cons c cs)
  from grows [of acc c] Cons [of "f acc c"] show ?case
    by (auto intro: prefix_order.trans)
qed

lemma foldl_emits:
  assumes grows: "\<And>acc c. prefix (fst acc) (fst (f acc c))"
    and emits: "\<And>acc. x \<in> set (fst (f acc col))"
    and col: "col \<in> set cols"
  shows "x \<in> set (fst (foldl f acc cols))"
  using col
proof (induction cols arbitrary: acc)
  case Nil
  then show ?case by simp
next
  case (Cons c cs)
  show ?case
  proof (cases "col = c")
    case True
    from emits [of acc] True have "x \<in> set (fst (f acc c))" by simp
    with foldl_grows [of f "f acc c" cs, OF grows] show ?thesis
      by (auto dest: set_mono_prefix)
  next
    case False
    with Cons.prems have "col \<in> set cs" by simp
    from Cons.IH [OF this] show ?thesis by simp
  qed
qed

lemma process_cell_grows:
  "prefix (fst acc) (fst (process_cell horarios_df codigo_base nome mat row acc column))"
  by (auto simp: process_cell_def split: prod.splits)

lemma process_row_grows:
  "prefix (fst acc) (fst (process_row horarios_df date_columns acc row))"
proof (cases acc)
  case (Pair converted_rows st)
  show ?thesis
    unfolding Pair process_row_def
    using foldl_grows [of "process_cell horarios_df
        (find_codigo_horario (Some (strip (row ! 2))) horarios_df)
        (strip (row ! 0)) (strip (row ! 1)) row",
        OF process_cell_grows,
        of "(converted_rows, st\<lparr>total_colaboradores := total_colaboradores st + 1\<rparr>)"
           date_columns]
    by (simp add: Let_def)
qed

lemma row_emits:
  assumes valid: "3 \<le> length row" "strip (row ! 0) \<noteq> []" "strip (row ! 1) \<noteq> []"
    and col: "column \<in> set date_columns"
    and emits: "\<And>acc. x \<in> set (fst (process_cell horarios_df
                   (find_codigo_horario (Some (strip (row ! 2))) horarios_df)
                   (strip (row ! 0)) (strip (row ! 1)) row acc column))"
  shows "x \<in> set (fst (process_row horarios_df date_columns acc row))"
proof (cases acc)
  case (Pair converted_rows st)
  have "x \<in> set (fst (foldl (process_cell horarios_df
                   (find_codigo_horario (Some (strip (row ! 2))) horarios_df)
                   (strip (row ! 0)) (strip (row ! 1)) row)
              (converted_rows, st\<lparr>total_colaboradores := total_colaboradores st + 1\<rparr>)
              date_columns))"
    by (rule foldl_emits [where f = "process_cell horarios_df
                   (find_codigo_horario (Some (strip (row ! 2))) horarios_df)
                   (strip (row ! 0)) (strip (row ! 1)) row" and col = column,
                 OF process_cell_grows emits col])
  with valid show ?thesis
    by (simp add: Pair process_row_def Let_def)
qed

lemma convert_emits:
  assumes header: "4 \<le> length header"
    and row: "row \<in> set data_rows"
    and valid: "3 \<le> length row" "strip (row ! 0) \<noteq> []" "strip (row ! 1) \<noteq> []"
    and col: "column \<in> set (date_columns_of strptime header)"
    and emits: "\<And>acc. x \<in> set (fst (process_cell (Some df)
                   (find_codigo_horario (Some (strip (row ! 2))) (Some df))
                   (strip (row ! 0)) (strip (row ! 1)) row acc column))"
  shows "\<exists>out st. convert_dados_to_senior strptime (Some df) (Some (header # data_rows))
                     = Inr (out, st) \<and> x \<in> set out"
proof -
  let ?f = "process_row (Some df) (date_columns_of strptime header)"
  have "x \<in> set (fst (foldl ?f ([], stats0) data_rows))"
    by (rule foldl_emits [of ?f x row, OF process_row_grows row_emits [OF valid col emits] row])
  moreover from header
  have "convert_dados_to_senior strptime (Some df) (Some (header # data_rows))
          = Inr (foldl ?f ([], stats0) data_rows)"
    by (simp add: convert_dados_to_senior_def)
  ultimately show ?thesis
    by (cases "foldl ?f ([], stats0) data_rows") auto
qed

text \<open>
  C5. A cell that reads four digits, a hyphen and four digits is rewritten to the key
  \<open>HH:MMHH:MM\<close>, and the key is looked up: when a row of the table has it, the record of
  the cell carries the code of the first such row and \<open>formato_convertido\<close> moves by one.
  When no row of the table has that key and the base code of the employee is present, the
  record of the cell carries the base code, and of the rule counters only
  \<open>formato_convertido_fallback\<close> moves, by exactly one; for a cell of a processed row
  under a date column, that record is in the output of the conversion. When neither is
  there, no record is made and \<open>codigo_nao_encontrado\<close> moves by one.
\<close>

theorem time_range_fallback:
  assumes cell: "cell_value_of row col_index = [a, b, c, d, CHR ''-'', e, f, g, h]"
    and digits: "list_all is_ascii_digit [a, b, c, d, e, f, g, h]"
  shows "converter_formato_horario (cell_value_of row col_index)
           = Some [a, b, CHR '':'', c, d, e, f, CHR '':'', g, h]
       \<and> (\<forall>i. i < length df
              \<and> snd (df ! i) = Some [a, b, CHR '':'', c, d, e, f, CHR '':'', g, h]
              \<and> (\<forall>j < i. snd (df ! j) \<noteq> Some [a, b, CHR '':'', c, d, e, f, CHR '':'', g, h])
              \<and> strip (fst (df ! i)) \<noteq> []
            \<longrightarrow> process_cell (Some df) codigo_base nome mat row (converted_rows, st)
                              (col_index, date_str, date_obj)
                  = (converted_rows @
                       [\<lparr> reg_id_colaborador = ''303-1-'' @ mat, reg_nome = nome,
                          reg_data = date_str, reg_codigo_horario = strip (fst (df ! i)) \<rparr>],
                     st\<lparr>formato_convertido := formato_convertido st + 1,
                        total_registros := total_registros st + 1\<rparr>))
       \<and> ((\<forall>(codigo, ident) \<in> set df.
               ident \<noteq> Some [a, b, CHR '':'', c, d, e, f, CHR '':'', g, h])
            \<longrightarrow> (\<forall>cb. codigo_base = Some cb \<and> cb \<noteq> []
                    \<longrightarrow> process_cell (Some df) codigo_base nome mat row (converted_rows, st)
                                      (col_index, date_str, date_obj)
                          = (converted_rows @
                               [\<lparr> reg_id_colaborador = ''303-1-'' @ mat, reg_nome = nome,
                                  reg_data = date_str, reg_codigo_horario = cb \<rparr>],
                             st\<lparr>formato_convertido_fallback := formato_convertido_fallback st + 1,
                                total_registros := total_registros st + 1\<rparr>)
                      \<and> (4 \<le> length header \<and> row \<in> set data_rows \<and> 3 \<le> length row
                           \<and> strip (row ! 0) \<noteq> [] \<and> strip (row ! 1) \<noteq> []
                           \<and> (col_index, date_str, date_obj) \<in> set (date_columns_of strptime header)
                           \<and> find_codigo_horario (Some (strip (row ! 2))) (Some df) = codigo_base
                         \<longrightarrow> (\<exists>out st'. convert_dados_to_senior strptime (Some df)
                                              (Some (header # data_rows)) = Inr (out, st')
                                \<and> \<lparr> reg_id_colaborador = ''303-1-'' @ strip (row ! 1),
                                     reg_nome = strip (row ! 0), reg_data = date_str,
                                     reg_codigo_horario = cb \<rparr> \<in> set out)))
               \<and> (\<not> truthy codigo_base
                    \<longrightarrow> process_cell (Some df) codigo_base nome mat row (converted_rows, st)
                                      (col_index, date_str, date_obj)
                          = (converted_rows,
                             st\<lparr>codigo_nao_encontrado := codigo_nao_encontrado st + 1\<rparr>)))"
proof -
  let ?key = "[a, b, CHR '':'', c, d, e, f, CHR '':'', g, h]"
  have key: "converter_formato_horario (cell_value_of row col_index) = Some ?key"
    by (simp add: cell time_range_rules(1) [OF digits])
  have found: "process_cell (Some df) codigo_base nome mat row (converted_rows, st)
                            (col_index, date_str, date_obj)
                 = (converted_rows @
                      [\<lparr> reg_id_colaborador = ''303-1-'' @ mat, reg_nome = nome,
                         reg_data = date_str, reg_codigo_horario = strip (fst (df ! i)) \<rparr>],
                    st\<lparr>formato_convertido := formato_convertido st + 1,
                       total_registros := total_registros st + 1\<rparr>)"
    if "i < length df \<and> snd (df ! i) = Some ?key
          \<and> (\<forall>j < i. snd (df ! j) \<noteq> Some ?key) \<and> strip (fst (df ! i)) \<noteq> []" for i
    using that by (intro time_range_found_step [OF cell digits]) simp_all
  have fallback: "process_cell (Some df) codigo_base nome mat row (converted_rows, st)
                               (col_index, date_str, date_obj)
                    = (converted_rows @
                         [\<lparr> reg_id_colaborador = ''303-1-'' @ mat, reg_nome = nome,
                            reg_data = date_str, reg_codigo_horario = cb \<rparr>],
                       st\<lparr>formato_convertido_fallback := formato_convertido_fallback st + 1,
                          total_registros := total_registros st + 1\<rparr>)"
    if nomatch: "\<forall>(codigo, ident) \<in> set df. ident \<noteq> Some ?key"
      and base: "codigo_base = Some cb \<and> cb \<noteq> []" for cb
    using time_range_cell_step [OF cell digits nomatch, of cb] base by simp
  have out: "\<exists>out st'. convert_dados_to_senior strptime (Some df) (Some (header # data_rows))
                          = Inr (out, st')
               \<and> \<lparr> reg_id_colaborador = ''303-1-'' @ strip (row ! 1), reg_nome = strip (row ! 0),
                    reg_data = date_str, reg_codigo_horario = cb \<rparr> \<in> set out"
    if nomatch: "\<forall>(codigo, ident) \<in> set df. ident \<noteq> Some ?key"
      and base: "codigo_base = Some cb \<and> cb \<noteq> []"
      and h: "4 \<le> length header \<and> row \<in> set data_rows \<and> 3 \<le> length row
                \<and> strip (row ! 0) \<noteq> [] \<and> strip (row ! 1) \<noteq> []
                \<and> (col_index, date_str, date_obj) \<in> set (date_columns_of strptime header)
                \<and> find_codigo_horario (Some (strip (row ! 2))) (Some df) = codigo_base" for cb
  proof (rule convert_emits [where column = "(col_index, date_str, date_obj)"])
    from h show "4 \<le> length header" "row \<in> set data_rows" "3 \<le> length row"
      "strip (row ! 0) \<noteq> []" "strip (row ! 1) \<noteq> []"
      "(col_index, date_str, date_obj) \<in> set (date_columns_of strptime header)"
      by simp_all
    fix acc :: "registro list \<times> stats"
    from base have cb: "cb \<noteq> []" by simp
    from h base have b: "find_codigo_horario (Some (strip (row ! 2))) (Some df) = Some cb"
      by simp
    show "\<lparr> reg_id_colaborador = ''303-1-'' @ strip (row ! 1), reg_nome = strip (row ! 0),
             reg_data = date_str, reg_codigo_horario = cb \<rparr>
          \<in> set (fst (process_cell (Some df)
                   (find_codigo_horario (Some (strip (row ! 2))) (Some df))
                   (strip (row ! 0)) (strip (row ! 1)) row acc (col_index, date_str, date_obj)))"
      by (cases acc) (simp add: b time_range_cell_step [OF cell digits nomatch cb])
  qed
  have skip: "process_cell (Some df) codigo_base nome mat row (converted_rows, st)
                           (col_index, date_str, date_obj)
                = (converted_rows, st\<lparr>codigo_nao_encontrado := codigo_nao_encontrado st + 1\<rparr>)"
    if nomatch: "\<forall>(codigo, ident) \<in> set df. ident \<noteq> Some ?key"
      and base: "\<not> truthy codigo_base"
    by (rule time_range_skip_step [OF cell digits nomatch base])
  from key found fallback out skip show ?thesis
    by blast
qed

theorem time_range_fallback_witness:
  "cell_value_of [''ANA'', ''7'', ''ESC'', '' 0800-1600 ''] 3 = ''0800-1600''
   \<and> converter_formato_horario (cell_value_of [''ANA'', ''7'', ''ESC'', '' 0800-1600 ''] 3)
       = Some ''08:0016:00''
   \<and> process_cell (Some [(''12'', Some ''ESC''), (''31'', Some ''07:0015:00'')]) (Some ''12'')
        ''ANA'' ''7'' [''ANA'', ''7'', ''ESC'', '' 0800-1600 ''] ([], stats0)
        (3, ''01/10/2025'', ())
       = ([\<lparr> reg_id_colaborador = ''303-1-7'', reg_nome = ''ANA'',
              reg_data = ''01/10/2025'', reg_codigo_horario = ''12'' \<rparr>],
          stats0\<lparr>formato_convertido_fallback := 1, total_registros := 1\<rparr>)
   \<and> process_cell (Some [(''12'', Some ''ESC''), (''45'', Some ''08:0016:00'')]) (Some ''12'')
        ''ANA'' ''7'' [''ANA'', ''7'', ''ESC'', '' 0800-1600 ''] ([], stats0)
        (3, ''01/10/2025'', ())
       = ([\<lparr> reg_id_colaborador = ''303-1-7'', reg_nome = ''ANA'',
              reg_data = ''01/10/2025'', reg_codigo_horario = ''45'' \<rparr>],
          stats0\<lparr>formato_convertido := 1, total_registros := 1\<rparr>)
   \<and> convert_dados_to_senior
        (\<lambda>s fmt. if s = ''01/10/2025'' \<and> fmt = ''%d/%m/%Y'' then Some () else None)
        (Some [(''12'', Some ''ESC''), (''31'', Some ''07:0015:00'')])
        (Some [[''NOME'', ''MAT'', ''COD. ESCALA'', ''01/10/2025''],
               [''ANA'', ''7'', ''ESC'', '' 0800-1600 '']])
       = Inr ([\<lparr> reg_id_colaborador = ''303-1-7'', reg_nome = ''ANA'',
                   reg_data = ''01/10/2025'', reg_codigo_horario = ''12'' \<rparr>],
              stats0\<lparr>total_colaboradores := 1, formato_convertido_fallback := 1,
                     total_registros := 1\<rparr>)"
proof -
  let ?row = "[''ANA'', ''7'', ''ESC'', '' 0800-1600 '']"
  let ?df1 = "[(''12'', Some ''ESC''), (''31'', Some ''07:0015:00'')]"
  let ?df2 = "[(''12'', Some ''ESC''), (''45'', Some ''08:0016:00'')]"
  have cell: "cell_value_of ?row 3 = ''0800-1600''"
    by code_simp
  have digits: "list_all is_ascii_digit ''08001600''"
    by (simp add: is_ascii_digit_def)
  have nomatch: "\<forall>(codigo, ident) \<in> set ?df1. ident \<noteq> Some ''08:0016:00''"
    by simp
  have found: "(1::nat) < length ?df2 \<and> snd (?df2 ! 1) = Some ''08:0016:00''
                 \<and> (\<forall>j < 1. snd (?df2 ! j) \<noteq> Some ''08:0016:00'')
                 \<and> strip (fst (?df2 ! 1)) \<noteq> []"
    by (simp add: strip_def py_isspace_def)
  have code: "strip ''45'' = ''45''"
    by (simp add: strip_def py_isspace_def)
  have conv: "convert_dados_to_senior
        (\<lambda>s fmt. if s = ''01/10/2025'' \<and> fmt = ''%d/%m/%Y'' then Some () else None)
        (Some ?df1)
        (Some [[''NOME'', ''MAT'', ''COD. ESCALA'', ''01/10/2025''], ?row])
       = Inr ([\<lparr> reg_id_colaborador = ''303-1-7'', reg_nome = ''ANA'',
                   reg_data = ''01/10/2025'', reg_codigo_horario = ''12'' \<rparr>],
              stats0\<lparr>total_colaboradores := 1, formato_convertido_fallback := 1,
                     total_registros := 1\<rparr>)"
    by code_simp
  note t1 = time_range_fallback [OF cell digits, of ?df1 "Some ''12''" "''ANA''" "''7''" "[]"
      stats0 "''01/10/2025''" "()"]
  note t2 = time_range_fallback [OF cell digits, of ?df2 "Some ''12''" "''ANA''" "''7''" "[]"
      stats0 "''01/10/2025''" "()"]
  from t1 have key: "converter_formato_horario (cell_value_of ?row 3) = Some ''08:0016:00''"
    by (rule conjunct1)
  from t1 nomatch have fb: "process_cell (Some ?df1) (Some ''12'') ''ANA'' ''7'' ?row ([], stats0)
        (3, ''01/10/2025'', ())
       = ([\<lparr> reg_id_colaborador = ''303-1-7'', reg_nome = ''ANA'',
              reg_data = ''01/10/2025'', reg_codigo_horario = ''12'' \<rparr>],
          stats0\<lparr>formato_convertido_fallback := 1, total_registros := 1\<rparr>)"
    by (simp add: stats0_def)
  from t2 have "(1::nat) < length ?df2 \<and> snd (?df2 ! 1) = Some ''08:0016:00''
                 \<and> (\<forall>j < 1. snd (?df2 ! j) \<noteq> Some ''08:0016:00'')
                 \<and> strip (fst (?df2 ! 1)) \<noteq> []
      \<longrightarrow> process_cell (Some ?df2) (Some ''12'') ''ANA'' ''7'' ?row ([], stats0)
            (3, ''01/10/2025'', ())
          = ([] @ [\<lparr> reg_id_colaborador = ''303-1-'' @ ''7'', reg_nome = ''ANA'',
                  reg_data = ''01/10/2025'', reg_codigo_horario = strip (fst (?df2 ! 1)) \<rparr>],
              stats0\<lparr>formato_convertido := formato_convertido stats0 + 1,
                     total_registros := total_registros stats0 + 1\<rparr>)"
    by blast
  with found have fd: "process_cell (Some ?df2) (Some ''12'') ''ANA'' ''7'' ?row ([], stats0)
        (3, ''01/10/2025'', ())
       = ([\<lparr> reg_id_colaborador = ''303-1-7'', reg_nome = ''ANA'',
              reg_data = ''01/10/2025'', reg_codigo_horario = ''45'' \<rparr>],
          stats0\<lparr>formato_convertido := 1, total_registros := 1\<rparr>)"
    by (simp add: code stats0_def)
  show ?thesis
    by (intro conjI cell key fb fd conv)
qed

text \<open>
  C6. A cell whose trimmed, upper-cased value is \<open>FR\<close> gives a record with the code
  \<open>9999\<close>, whatever the table and the base code of the row are. For a cell of a
  processed row under a date column, that record is in the output of the conversion.
\<close>

theorem fr_gives_9999:
  assumes cell: "cell_value_of row col_index = ''FR''"
  shows "process_cell horarios_df codigo_base nome mat row (converted_rows, st)
                      (col_index, date_str, date_obj)
           = (converted_rows @
                [\<lparr> reg_id_colaborador = ''303-1-'' @ mat, reg_nome = nome,
                   reg_data = date_str, reg_codigo_horario = ''9999'' \<rparr>],
              st\<lparr>fr_9999 := fr_9999 st + 1, total_registros := total_registros st + 1\<rparr>)
       \<and> (4 \<le> length header \<and> row \<in> set data_rows \<and> 3 \<le> length row
            \<and> strip (row ! 0) \<noteq> [] \<and> strip (row ! 1) \<noteq> []
            \<and> (col_index, date_str, date_obj) \<in> set (date_columns_of strptime header)
          \<longrightarrow> (\<exists>out st'. convert_dados_to_senior strptime (Some df) (Some (header # data_rows))
                             = Inr (out, st')
                 \<and> \<lparr> reg_id_colaborador = ''303-1-'' @ strip (row ! 1), reg_nome = strip (row ! 0),
                      reg_data = date_str, reg_codigo_horario = ''9999'' \<rparr> \<in> set out))"
proof -
  have out: "\<exists>out st'. convert_dados_to_senior strptime (Some df) (Some (header # data_rows))
                          = Inr (out, st')
               \<and> \<lparr> reg_id_colaborador = ''303-1-'' @ strip (row ! 1), reg_nome = strip (row ! 0),
                    reg_data = date_str, reg_codigo_horario = ''9999'' \<rparr> \<in> set out"
    if h: "4 \<le> length header" "row \<in> set data_rows" "3 \<le> length row"
      "strip (row ! 0) \<noteq> []" "strip (row ! 1) \<noteq> []"
      "(col_index, date_str, date_obj) \<in> set (date_columns_of strptime header)"
  proof (rule convert_emits [OF h])
    fix acc :: "registro list \<times> stats"
    show "\<lparr> reg_id_colaborador = ''303-1-'' @ strip (row ! 1), reg_nome = strip (row ! 0),
             reg_data = date_str, reg_codigo_horario = ''9999'' \<rparr>
          \<in> set (fst (process_cell (Some df)
                   (find_codigo_horario (Some (strip (row ! 2))) (Some df))
                   (strip (row ! 0)) (strip (row ! 1)) row acc (col_index, date_str, date_obj)))"
      by (cases acc) (simp add: fr_cell_step [OF cell])
  qed
  from fr_cell_step [OF cell] out show ?thesis
    by simp
qed

theorem fr_gives_9999_witness:
  "cell_value_of [''ANA'', ''7'', ''ESC'', '' fr ''] 3 = ''FR''
   \<and> process_cell (Some [(''9999'', Some ''FR''), (''12'', Some ''ESC'')]) (Some ''12'') ''ANA'' ''7''
        [''ANA'', ''7'', ''ESC'', '' fr ''] ([], stats0) (3, ''01/10/2025'', ())
       = ([\<lparr> reg_id_colaborador = ''303-1-7'', reg_nome = ''ANA'',
              reg_data = ''01/10/2025'', reg_codigo_horario = ''9999'' \<rparr>],
          stats0\<lparr>fr_9999 := 1, total_registros := 1\<rparr>)
   \<and> convert_dados_to_senior
        (\<lambda>s fmt. if s = ''01/10/2025'' \<and> fmt = ''%d/%m/%Y'' then Some () else None)
        (Some [(''77'', Some ''FR''), (''12'', Some ''ESC'')])
        (Some [[''NOME'', ''MAT'', ''COD. ESCALA'', ''01/10/2025''],
               [''ANA'', ''7'', ''ESC'', '' fr '']])
       = Inr ([\<lparr> reg_id_colaborador = ''303-1-7'', reg_nome = ''ANA'',
                   reg_data = ''01/10/2025'', reg_codigo_horario = ''9999'' \<rparr>],
              stats0\<lparr>total_colaboradores := 1, fr_9999 := 1, total_registros := 1\<rparr>)"
proof -
  have cell: "cell_value_of [''ANA'', ''7'', ''ESC'', '' fr ''] 3 = ''FR''"
    by code_simp
  have conv: "convert_dados_to_senior
        (\<lambda>s fmt. if s = ''01/10/2025'' \<and> fmt = ''%d/%m/%Y'' then Some () else None)
        (Some [(''77'', Some ''FR''), (''12'', Some ''ESC'')])
        (Some [[''NOME'', ''MAT'', ''COD. ESCALA'', ''01/10/2025''],
               [''ANA'', ''7'', ''ESC'', '' fr '']])
       = Inr ([\<lparr> reg_id_colaborador = ''303-1-7'', reg_nome = ''ANA'',
                   reg_data = ''01/10/2025'', reg_codigo_horario = ''9999'' \<rparr>],
              stats0\<lparr>total_colaboradores := 1, fr_9999 := 1, total_registros := 1\<rparr>)"
    by code_simp
  from cell conv fr_gives_9999 [OF cell, of "Some [(''9999'', Some ''FR''), (''12'', Some ''ESC'')]"
      "Some ''12''" "''ANA''" "''7''" "[]" stats0 "''01/10/2025''" "()"]
  show ?thesis by (simp add: stats0_def)
qed

section \<open>The retry cycle\<close>

lemma filter_erros_empty:
  "\<forall>r \<in> set resultados. status r = ''sucesso'' \<Longrightarrow>
   filter (\<lambda>r. status r \<noteq> ''sucesso'') resultados = []"
  by (simp add: filter_empty_conv)

text \<open>
  C8. On a store in which every outcome is a success, a pass of the retry loop resubmits
  no record, produces no new outcome and leaves the store and the cycle counter as they
  were, whatever the remote side and the user would answer.
\<close>

theorem retry_cycle_success_only:
  assumes "\<forall>r \<in> set resultados. status r = ''sucesso''"
  shows "retry_cycle cl remotes quer_retry resultados n =
           Inr \<lparr> ci_resultados = resultados, ci_novos = [], ci_reenviados = [],
                 ci_numero = n, ci_continua = False \<rparr>"
  using filter_erros_empty [OF assms]
  by (simp add: retry_cycle_def separar_sucessos_e_erros_def)

theorem retry_cycle_success_only_witness:
  "retry_cycle \<lparr> base_url = ''https://host/api'', max_retries = 3 \<rparr>
     (\<lambda>i req t. Response 500 ''down'') True
     [\<lparr> res_id_colaborador = ''303-1-7'', res_nome = ''ANA'', res_data = ''2025-10-01'',
        res_codigo_horario = ''12'', status_code = 200, status = ''sucesso'',
        response_text = ''ok'', erro = [], tentativas = 1, numero_retry = Some 0 \<rparr>] 0
   = Inr \<lparr> ci_resultados =
             [\<lparr> res_id_colaborador = ''303-1-7'', res_nome = ''ANA'', res_data = ''2025-10-01'',
                res_codigo_horario = ''12'', status_code = 200, status = ''sucesso'',
                response_text = ''ok'', erro = [], tentativas = 1, numero_retry = Some 0 \<rparr>],
           ci_novos = [], ci_reenviados = [], ci_numero = 0, ci_continua = False \<rparr>"
  using retry_cycle_success_only
    [of "[\<lparr> res_id_colaborador = ''303-1-7'', res_nome = ''ANA'', res_data = ''2025-10-01'',
           res_codigo_horario = ''12'', status_code = 200, status = ''sucesso'',
           response_text = ''ok'', erro = [], tentativas = 1, numero_retry = Some 0 \<rparr>]"
        "\<lparr> base_url = ''https://host/api'', max_retries = 3 \<rparr>"
        "\<lambda>i req t. Response 500 ''down''" True 0]
  by simp

section \<open>The semaphore bounds the submissions in flight\<close>

lemma count_update_pending:
  "i < length ts \<Longrightarrow> ts ! i = Pending \<Longrightarrow>
   length (filter (\<lambda>t. t = InFlight) (ts[i := InFlight]))
     = Suc (length (filter (\<lambda>t. t = InFlight) ts))"
proof (induction ts arbitrary: i)
  case Nil
  then show ?case by simp
next
  case (Cons t ts)
  then show ?case by (cases i) auto
qed

lemma count_update_release:
  "i < length ts \<Longrightarrow> ts ! i = InFlight \<Longrightarrow>
   Suc (length (filter (\<lambda>t. t = InFlight) (ts[i := Finished])))
     = length (filter (\<lambda>t. t = InFlight) ts)"
proof (induction ts arbitrary: i)
  case Nil
  then show ?case by simp
next
  case (Cons t ts)
  then show ?case by (cases i) auto
qed

lemma in_flight_invariant:
  "lote_reachable m n s \<Longrightarrow> sem_value s + in_flight s = m"
proof (induction rule: lote_reachable.induct)
  case (reach_init m n)
  show ?case by (simp add: lote_init_def in_flight_def)
next
  case (reach_step m n s s')
  from reach_step.hyps(2) show ?case
  proof (cases rule: lote_step.cases)
    case (acquire i)
    then show ?thesis
      using reach_step.IH count_update_pending [of i "tasks s"]
      by (simp add: in_flight_def)
  next
    case (release i)
    then show ?thesis
      using reach_step.IH count_update_release [of i "tasks s"]
      by (simp add: in_flight_def)
  qed
qed

text \<open>
  C4. In every state a batch can reach, under any schedule and for any number of queued
  records, the submissions in flight are at most \<open>max_concurrent\<close>.
\<close>

theorem in_flight_bounded:
  assumes "lote_reachable max_concurrent n s"
  shows "in_flight s \<le> max_concurrent"
  using in_flight_invariant [OF assms] by simp

theorem in_flight_bounded_witness:
  "lote_reachable 2 3 \<lparr> sem_value = 0, tasks = [InFlight, Pending, InFlight] \<rparr>
   \<and> in_flight \<lparr> sem_value = 0, tasks = [InFlight, Pending, InFlight] \<rparr> \<le> 2"
proof -
  have s0: "lote_reachable 2 3 \<lparr> sem_value = 2, tasks = [Pending, Pending, Pending] \<rparr>"
    using reach_init [of 2 3] by (simp add: lote_init_def numeral_3_eq_3)
  have st1: "lote_step \<lparr> sem_value = 2, tasks = [Pending, Pending, Pending] \<rparr>
                       \<lparr> sem_value = 1, tasks = [InFlight, Pending, Pending] \<rparr>"
    using acquire [of 0 "\<lparr> sem_value = 2, tasks = [Pending, Pending, Pending] \<rparr>"] by simp
  have st2: "lote_step \<lparr> sem_value = 1, tasks = [InFlight, Pending, Pending] \<rparr>
                       \<lparr> sem_value = 0, tasks = [InFlight, Pending, InFlight] \<rparr>"
    using acquire [of 2 "\<lparr> sem_value = 1, tasks = [InFlight, Pending, Pending] \<rparr>"] by simp
  have r: "lote_reachable 2 3 \<lparr> sem_value = 0, tasks = [InFlight, Pending, InFlight] \<rparr>"
    using reach_step [OF reach_step [OF s0 st1] st2] .
  from r in_flight_bounded [OF r] show ?thesis by simp
qed

section \<open>The reference table\<close>


lemma str_of_int_integer_text: "is_integer_text (str_of_int i)"
proof (cases "i < 0")
  case True
  then show ?thesis
    using str_of_nat_digits [of "nat (- i)"] by (simp add: is_integer_text_def str_of_int_def)
next
  case False
  obtain c cs where s: "str_of_nat (nat i) = c # cs"
    using str_of_nat_digits [of "nat i"] by (cases "str_of_nat (nat i)") auto
  have "is_ascii_digit c" "list_all is_ascii_digit cs"
    using str_of_nat_digits [of "nat i"] s by simp_all
  moreover have "c \<noteq> CHR ''-''"
    using \<open>is_ascii_digit c\<close> by (auto simp: is_ascii_digit_def)
  ultimately show ?thesis
    using False s by (simp add: is_integer_text_def str_of_int_def)
qed


lemma coerce_codigo_integer_text:
  "coerce_codigo to_numeric ovf cell = Some c \<Longrightarrow> is_integer_text c"
  by (auto simp: coerce_codigo_def str_of_int_integer_text)

lemma coerce_codigo_integer_value:
  assumes "to_numeric cell = PNum (of_int n)" "- (2 ^ 63) \<le> n" "n < 2 ^ 63"
  shows "coerce_codigo to_numeric ovf cell = Some (str_of_int n)"
  using assms by (simp add: coerce_codigo_def fillna0_def astype_int_def trunc_rat_def Let_def)



lemma coerce_rows_map:
  "coerce_rows to_numeric ovf rows = Some df \<Longrightarrow>
   length df = length rows \<and>
   (\<forall>i < length rows. coerce_codigo to_numeric ovf (fst (rows ! i)) = Some (fst (df ! i))
                     \<and> snd (df ! i) = map_option strip (snd (rows ! i)))"
proof (induction rows arbitrary: df)
  case Nil
  then show ?case by simp
next
  case (Cons row rows)
  obtain codigo ident where row: "row = (codigo, ident)" by (cases row)
  from Cons.prems row obtain c df' where
    c: "coerce_codigo to_numeric ovf codigo = Some c"
    and df': "coerce_rows to_numeric ovf rows = Some df'"
    and df: "df = (c, map_option strip ident) # df'"
    by (auto split: option.splits)
  from Cons.IH [OF df'] show ?case
    using c df row by (auto simp: nth_Cons split: nat.splits)
qed


lemma load_fresh:
  "load_horarios_mapping to_numeric ovf None (Some csv) = (Some df, cache) \<Longrightarrow>
   coerce_rows to_numeric ovf (hc_rows csv) = Some df"
  by (auto simp: load_horarios_mapping_def Let_def split: if_splits option.splits)



text \<open>
  C7. Every code of a loaded table is integer text: an optional sign and digits, with no
  fractional suffix. A cell that pandas reads as the integer-valued number \<open>n\<close>
  (\<open>1234.0\<close> is read as 1234) is stored as \<open>str(n)\<close>.
\<close>

theorem stored_codes_are_integer_text:
  assumes load: "load_horarios_mapping to_numeric ovf None (Some csv) = (Some df, cache)"
  shows "(\<forall>(codigo, ident) \<in> set df. is_integer_text codigo)
       \<and> length df = length (hc_rows csv)
       \<and> (\<forall>i < length df. \<forall>n. to_numeric (fst (hc_rows csv ! i)) = PNum (of_int n)
              \<and> - (2 ^ 63) \<le> n \<and> n < 2 ^ 63 \<longrightarrow> fst (df ! i) = str_of_int n)"
proof -
  note rows = coerce_rows_map [OF load_fresh [OF load]]
  have a: "\<forall>(codigo, ident) \<in> set df. is_integer_text codigo"
  proof (clarify)
    fix codigo ident assume "(codigo, ident) \<in> set df"
    then obtain i where i: "i < length df" "df ! i = (codigo, ident)"
      by (auto simp: in_set_conv_nth)
    with rows have "coerce_codigo to_numeric ovf (fst (hc_rows csv ! i)) = Some codigo"
      by auto
    then show "is_integer_text codigo" by (rule coerce_codigo_integer_text)
  qed
  have b: "\<forall>i < length df. \<forall>n. to_numeric (fst (hc_rows csv ! i)) = PNum (of_int n)
              \<and> - (2 ^ 63) \<le> n \<and> n < 2 ^ 63 \<longrightarrow> fst (df ! i) = str_of_int n"
  proof (intro allI impI)
    fix i n assume i: "i < length df"
      and n: "to_numeric (fst (hc_rows csv ! i)) = PNum (of_int n) \<and> - (2 ^ 63) \<le> n \<and> n < 2 ^ 63"
    from rows i have "coerce_codigo to_numeric ovf (fst (hc_rows csv ! i)) = Some (fst (df ! i))"
      by auto
    moreover from n have "coerce_codigo to_numeric ovf (fst (hc_rows csv ! i)) = Some (str_of_int n)"
      by (intro coerce_codigo_integer_value) auto
    ultimately show "fst (df ! i) = str_of_int n" by simp
  qed
  from a b rows show ?thesis by simp
qed

theorem stored_codes_are_integer_text_witness:
  "load_horarios_mapping (\<lambda>s. if s = ''1234.0'' then PNum 1234 else PNaN) (\<lambda>r. 0) None
     (Some \<lparr> hc_columns = [col_codigo_horario, col_id_script],
             hc_rows = [(''1234.0'', Some '' ESC '')] \<rparr>)
     = (Some [(''1234'', Some ''ESC'')], Some [(''1234'', Some ''ESC'')])
   \<and> is_integer_text ''1234''
   \<and> str_of_int 1234 = ''1234''"
proof -
  have load: "load_horarios_mapping (\<lambda>s. if s = ''1234.0'' then PNum 1234 else PNaN) (\<lambda>r. 0) None
     (Some \<lparr> hc_columns = [col_codigo_horario, col_id_script],
             hc_rows = [(''1234.0'', Some '' ESC '')] \<rparr>)
     = (Some [(''1234'', Some ''ESC'')], Some [(''1234'', Some ''ESC'')])"
    by code_simp
  have s: "str_of_int 1234 = ''1234''"
    by code_simp
  from stored_codes_are_integer_text [OF load]
  have "\<forall>(codigo, ident) \<in> set [(''1234'', Some ''ESC'')]. is_integer_text codigo"
    by (rule conjunct1)
  then have h: "is_integer_text ''1234''"
    by simp
  show ?thesis by (intro conjI load h s)
qed




section \<open>The format detectors\<close>

lemma detectar_formato_cases:
  "detectar_formato_csv (Some header) =
     (if grid_criteria header then Grid
      else if flat_criteria header then Api else Desconhecido)"
  by (cases header)
     (simp_all add: detectar_formato_csv_def grid_criteria_def flat_criteria_def Let_def)

text \<open>
  C9 is not what the command-line detector does. Its grid test runs before its flat test,
  so a header that meets both, \<open>id_colaborador;nome;data;codigo_horario;mat;cod_escala\<close>,
  is classified grid, and on the user's yes the table goes to the conversion. The detector
  of the web front end tests the identifier column first and classifies the same header
  as the api format.
\<close>

theorem ambiguous_header_classified_grid:
  "flat_criteria [''id_colaborador'', ''nome'', ''data'', ''codigo_horario'', ''mat'', ''cod_escala'']
   \<and> grid_criteria [''id_colaborador'', ''nome'', ''data'', ''codigo_horario'', ''mat'', ''cod_escala'']
   \<and> detectar_formato_csv
        (Some [''id_colaborador'', ''nome'', ''data'', ''codigo_horario'', ''mat'', ''cod_escala''])
       = Grid
   \<and> rota_do_formato (detectar_formato_csv
        (Some [''id_colaborador'', ''nome'', ''data'', ''codigo_horario'', ''mat'', ''cod_escala'']))
        ''s'' = Converter
   \<and> detectar_formato_csv_app ''id_colaborador;nome;data;codigo_horario;mat;cod_escala'' = Api"
  by code_simp

section \<open>One submission\<close>

lemma error_response_step:
  assumes req: "build_request cl i n d c cd = Inr req"
    and resp: "remote req t = Response st body"
    and st: "st \<notin> {200, 201, 204, 401}"
  shows "tentativa_step cl remote i n d c cd t =
           (if t < max_retries cl then Retry ((1 / 2) * 2 ^ (t - 1))
            else Return \<lparr> res_id_colaborador = i, res_nome = n, res_data = req_data req,
                          res_codigo_horario = c, status_code = st, status = ''erro'',
                          response_text = take 500 body, erro = [], tentativas = t,
                          numero_retry = None \<rparr>)"
  using assms by (simp add: tentativa_step_def attempt_def)

text \<open>
  C3. With three attempts allowed, a record whose request is answered on each attempt with
  a status other than 200, 201, 204 and 401 is attempted three times, sleeps 0.5 s after
  the first attempt and 1 s after the second, and ends with the status \<open>erro\<close> and 3
  attempts.
\<close>

theorem http_error_three_attempts:
  assumes max: "max_retries cl = 3"
    and req: "build_request cl (cd_id_colaborador c) (cd_nome c) (cd_data c)
                (cd_codigo_horario c) c = Inr req"
    and resp: "\<forall>t \<in> {1, 2, 3}. remote req t = Response (st t) (body t)
                 \<and> st t \<notin> {200, 201, 204, 401}"
  shows "enviar_programacao cl remote c =
           Inr (\<lparr> res_id_colaborador = cd_id_colaborador c, res_nome = cd_nome c,
                  res_data = req_data req, res_codigo_horario = cd_codigo_horario c,
                  status_code = st 3, status = ''erro'', response_text = take 500 (body 3),
                  erro = [], tentativas = 3, numero_retry = None \<rparr>,
                [1 / 2, 1])"
proof -
  let ?from = "tentar_envio_from cl remote (cd_id_colaborador c) (cd_nome c) (cd_data c)
                 (cd_codigo_horario c) c"
  let ?step = "tentativa_step cl remote (cd_id_colaborador c) (cd_nome c) (cd_data c)
                 (cd_codigo_horario c) c"
  let ?r = "\<lparr> res_id_colaborador = cd_id_colaborador c, res_nome = cd_nome c,
              res_data = req_data req, res_codigo_horario = cd_codigo_horario c,
              status_code = st 3, status = ''erro'', response_text = take 500 (body 3),
              erro = [], tentativas = 3, numero_retry = None \<rparr>"
  from resp have r1: "remote req 1 = Response (st 1) (body 1)" "st 1 \<notin> {200, 201, 204, 401}"
    and r2: "remote req 2 = Response (st 2) (body 2)" "st 2 \<notin> {200, 201, 204, 401}"
    and r3: "remote req 3 = Response (st 3) (body 3)" "st 3 \<notin> {200, 201, 204, 401}"
    by simp_all
  have s1: "?step 1 = Retry (1 / 2)"
    using error_response_step [where remote = remote and t = 1, OF req r1] max by simp
  have s2: "?step 2 = Retry 1"
    using error_response_step [where remote = remote and t = 2, OF req r2] max by simp
  have s3: "?step 3 = Return ?r"
    using error_response_step [where remote = remote and t = 3, OF req r3] max by simp
  have e3: "?from 3 = (?r, [])"
    by (subst tentar_envio_from.simps) (simp add: max s3)
  have e2: "?from 2 = (?r, [1])"
    by (subst tentar_envio_from.simps) (simp add: max s2 e3)
  have e1: "?from 1 = (?r, [1 / 2, 1])"
    by (subst tentar_envio_from.simps)
       (simp add: max s1 [unfolded One_nat_def] e2 [unfolded numeral_2_eq_2])
  show ?thesis
    by (simp add: enviar_programacao_def tentar_envio_def e1 [unfolded One_nat_def])
qed

theorem http_error_three_attempts_witness:
  "enviar_programacao \<lparr> base_url = ''https://host/api'', max_retries = 3 \<rparr>
     (\<lambda>req t. Response 500 ''Internal Server Error'')
     \<lparr> cd_id_colaborador = ''303-1-7'', cd_nome = ''ANA'', cd_data = ''03/11/2025'',
       cd_codigo_horario = ''10'', cd_numero_cadastro = [], cd_numero_empresa = [],
       cd_tipo_colaborador = ''1'' \<rparr>
   = Inr (\<lparr> res_id_colaborador = ''303-1-7'', res_nome = ''ANA'', res_data = ''2025-11-03'',
            res_codigo_horario = ''10'', status_code = 500, status = ''erro'',
            response_text = ''Internal Server Error'', erro = [], tentativas = 3,
            numero_retry = None \<rparr>,
          [1 / 2, 1])"
proof -
  let ?cl = "\<lparr> base_url = ''https://host/api'', max_retries = 3 \<rparr>"
  let ?c = "\<lparr> cd_id_colaborador = ''303-1-7'', cd_nome = ''ANA'', cd_data = ''03/11/2025'',
             cd_codigo_horario = ''10'', cd_numero_cadastro = [], cd_numero_empresa = [],
             cd_tipo_colaborador = ''1'' \<rparr>"
  let ?req = "\<lparr> req_url = ''https://host/api/colaboradores/303-1-7/programacoes/trocas-horarios/303-1-7-2025-11-03'',
               req_id = ''303-1-7'', req_nome = ''ANA'', req_numero_cadastro = 7,
               req_numero_empresa = 303, req_tipo_colaborador = 1, req_data = ''2025-11-03'',
               req_codigo = 10 \<rparr>"
  have req: "build_request ?cl (cd_id_colaborador ?c) (cd_nome ?c) (cd_data ?c)
               (cd_codigo_horario ?c) ?c = Inr ?req"
    by code_simp
  have max: "max_retries ?cl = 3" by simp
  have resp: "\<forall>t \<in> {1, 2, 3 :: nat}.
                (\<lambda>req t. Response 500 ''Internal Server Error'') ?req t
                  = Response ((\<lambda>t. 500) t) ((\<lambda>t. ''Internal Server Error'') t)
                \<and> (\<lambda>t. 500) t \<notin> {200, 201, 204, 401 :: nat}"
    by simp
  from http_error_three_attempts [OF max req resp] show ?thesis by simp
qed

section \<open>What the code does on HTTP 401 and on a retry after a timeout\<close>

text \<open>
  C1 is not what the code does. The exception raised on 401 is raised inside the \<open>try\<close>
  of the attempt, and the clause \<open>except Exception\<close> of that same \<open>try\<close> catches it:
  the 401 is retried with the 0.5 s backoff like any other failure, and after the third
  attempt the record gets an outcome with the status \<open>erro\<close>. The batch returns normally.
\<close>

theorem token_expirado_is_swallowed:
  "enviar_programacao \<lparr> base_url = ''https://host/api'', max_retries = 3 \<rparr>
     (\<lambda>req t. Response 401 ''Unauthorized'')
     \<lparr> cd_id_colaborador = ''303-1-7'', cd_nome = ''ANA'', cd_data = ''03/11/2025'',
       cd_codigo_horario = ''10'', cd_numero_cadastro = [], cd_numero_empresa = [],
       cd_tipo_colaborador = ''1'' \<rparr>
   = Inr (\<lparr> res_id_colaborador = ''303-1-7'', res_nome = ''ANA'', res_data = ''03/11/2025'',
            res_codigo_horario = ''10'', status_code = 0, status = ''erro'',
            response_text = msg_token_expirado, erro = msg_token_expirado, tentativas = 3,
            numero_retry = None \<rparr>,
          [1 / 2, 1])
   \<and> processar_lote \<lparr> base_url = ''https://host/api'', max_retries = 3 \<rparr>
     (\<lambda>i req t. Response 401 ''Unauthorized'')
     [\<lparr> cd_id_colaborador = ''303-1-7'', cd_nome = ''ANA'', cd_data = ''03/11/2025'',
        cd_codigo_horario = ''10'', cd_numero_cadastro = [], cd_numero_empresa = [],
        cd_tipo_colaborador = ''1'' \<rparr>]
   = Inr [\<lparr> res_id_colaborador = ''303-1-7'', res_nome = ''ANA'', res_data = ''03/11/2025'',
            res_codigo_horario = ''10'', status_code = 0, status = ''erro'',
            response_text = msg_token_expirado, erro = msg_token_expirado, tentativas = 3,
            numero_retry = None \<rparr>]"
  by code_simp

text \<open>
  C2 is not what the code does for a record that timed out. The outcome of a timeout
  keeps the date as it was submitted (\<open>03/11/2025\<close>); the outcome of an answered request
  carries the date rewritten year first (\<open>2025-11-03\<close>). The key of the new outcome then
  differs from the key of the stored one, and the store keeps the old timeout.
\<close>

theorem retry_after_timeout_not_stored:
  "primeiro_envio \<lparr> base_url = ''https://host/api'', max_retries = 3 \<rparr>
     (\<lambda>i req t. TimedOut)
     [\<lparr> cd_id_colaborador = ''303-1-7'', cd_nome = ''ANA'', cd_data = ''03/11/2025'',
        cd_codigo_horario = ''10'', cd_numero_cadastro = [], cd_numero_empresa = [],
        cd_tipo_colaborador = ''1'' \<rparr>]
   = Inr [\<lparr> res_id_colaborador = ''303-1-7'', res_nome = ''ANA'', res_data = ''03/11/2025'',
            res_codigo_horario = ''10'', status_code = 0, status = ''timeout'',
            response_text = msg_timeout, erro = ''Timeout'', tentativas = 3,
            numero_retry = Some 0 \<rparr>]
   \<and> retry_cycle \<lparr> base_url = ''https://host/api'', max_retries = 3 \<rparr>
     (\<lambda>i req t. Response 200 ''ok'') True
     [\<lparr> res_id_colaborador = ''303-1-7'', res_nome = ''ANA'', res_data = ''03/11/2025'',
        res_codigo_horario = ''10'', status_code = 0, status = ''timeout'',
        response_text = msg_timeout, erro = ''Timeout'', tentativas = 3,
        numero_retry = Some 0 \<rparr>] 0
   = Inr \<lparr> ci_resultados =
             [\<lparr> res_id_colaborador = ''303-1-7'', res_nome = ''ANA'', res_data = ''03/11/2025'',
                res_codigo_horario = ''10'', status_code = 0, status = ''timeout'',
                response_text = msg_timeout, erro = ''Timeout'', tentativas = 3,
                numero_retry = Some 0 \<rparr>],
           ci_novos =
             [\<lparr> res_id_colaborador = ''303-1-7'', res_nome = ''ANA'', res_data = ''2025-11-03'',
                res_codigo_horario = ''10'', status_code = 200, status = ''sucesso'',
                response_text = ''ok'', erro = [], tentativas = 1, numero_retry = Some 1 \<rparr>],
           ci_reenviados =
             [\<lparr> cd_id_colaborador = ''303-1-7'', cd_nome = ''ANA'', cd_data = ''03/11/2025'',
                cd_codigo_horario = ''10'', cd_numero_cadastro = [], cd_numero_empresa = [],
                cd_tipo_colaborador = ''1'' \<rparr>],
           ci_numero = 1, ci_continua = True \<rparr>"
  by code_simp

end
